theory Spec2Isabelle
  imports Complex_Main "HOL-Library.AList" "HOL-Library.Char_ord" "HOL-Library.List_Lexorder"
begin

section \<open>JavaScript values and strings\<close>

text \<open>
  The services work on the objects that \<open>JSON.parse\<close> returns for an uploaded SBOM.
  A value is a primitive, an array, or an object; an object is the list of its members in
  insertion order, with distinct keys, and a property read takes the first member of that
  name. \<open>JUndefined\<close> is what a read of a missing property returns. A number is
  carried by the decimal text that JavaScript prints for it. Strings are ASCII text, one
  \<open>char\<close> per UTF-16 code unit.
\<close>

datatype jsval =
    JUndefined
  | JNull
  | JBool bool
  | JNum string
  | JStr string
  | JArr "jsval list"
  | JObj "(string \<times> jsval) list"

datatype js_error = TypeError | Rejected string

text \<open>Property read \<open>v[k]\<close>: a \<open>TypeError\<close> on \<open>null\<close> and \<open>undefined\<close>, the member of an
  object, \<open>undefined\<close> on every other value (none of the names read below is a built-in
  property of a string, number or array).\<close>

fun js_get :: "jsval \<Rightarrow> string \<Rightarrow> js_error + jsval" where
  "js_get JUndefined k = Inl TypeError"
| "js_get JNull k = Inl TypeError"
| "js_get (JObj ms) k = Inr (case map_of ms k of None \<Rightarrow> JUndefined | Some v \<Rightarrow> v)"
| "js_get v k = Inr JUndefined"

text \<open>\<open>ToBoolean\<close>.\<close>

fun truthy :: "jsval \<Rightarrow> bool" where
  "truthy JUndefined = False"
| "truthy JNull = False"
| "truthy (JBool b) = b"
| "truthy (JNum r) = (r \<noteq> ''0'' \<and> r \<noteq> ''-0'' \<and> r \<noteq> ''NaN'')"
| "truthy (JStr s) = (s \<noteq> [])"
| "truthy (JArr xs) = True"
| "truthy (JObj ms) = True"

text \<open>\<open>a === b\<close> for two values read from different places of a parsed document:
  primitives compare by value, two objects or arrays are never the same reference.\<close>

fun strict_eq :: "jsval \<Rightarrow> jsval \<Rightarrow> bool" where
  "strict_eq JUndefined JUndefined = True"
| "strict_eq JNull JNull = True"
| "strict_eq (JBool a) (JBool b) = (a = b)"
| "strict_eq (JNum a) (JNum b) = (a = b)"
| "strict_eq (JStr a) (JStr b) = (a = b)"
| "strict_eq a b = False"

text \<open>\<open>Array.prototype.join\<close> on strings.\<close>

fun join :: "string \<Rightarrow> string list \<Rightarrow> string" where
  "join sep [] = []"
| "join sep [x] = x"
| "join sep (x # y # ys) = x @ sep @ join sep (y # ys)"

subsection \<open>JSON.stringify with an array replacer\<close>

definition hexdigit :: "nat \<Rightarrow> char" where
  "hexdigit n = (''0123456789abcdef'') ! (n mod 16)"

text \<open>\<open>QuoteJSONString\<close>: the two-character escapes, \<open>\u00XX\<close> for the other control
  characters, every other code unit as it is.\<close>

definition quoteChar :: "char \<Rightarrow> string" where
  "quoteChar c =
     (if c = CHR 0x22 then [CHR 0x5C, CHR 0x22]
      else if c = CHR 0x5C then [CHR 0x5C, CHR 0x5C]
      else if c = CHR 0x08 then [CHR 0x5C, CHR ''b'']
      else if c = CHR 0x0C then [CHR 0x5C, CHR ''f'']
      else if c = CHR 0x0A then [CHR 0x5C, CHR ''n'']
      else if c = CHR 0x0D then [CHR 0x5C, CHR ''r'']
      else if c = CHR 0x09 then [CHR 0x5C, CHR ''t'']
      else if (of_char c :: nat) < 32
        then [CHR 0x5C, CHR ''u'', CHR ''0'', CHR ''0'',
              hexdigit (of_char c div 16), hexdigit (of_char c)]
      else [c])"

definition quoteJSONString :: "string \<Rightarrow> string" where
  "quoteJSONString s = [CHR 0x22] @ concat (map quoteChar s) @ [CHR 0x22]"

text \<open>
  \<open>SerializeJSONProperty\<close> when the replacer is an array: the array is the property list
  \<open>K\<close>, and \<^emph>\<open>every\<close> object, at every depth, is written with exactly the members named
  in \<open>K\<close>, in the order of \<open>K\<close>. A member whose value is \<open>undefined\<close> is left out; an
  \<open>undefined\<close> array element is written \<open>null\<close>. The result \<open>None\<close> is \<open>undefined\<close>.
\<close>

fun serializeJSON :: "string list \<Rightarrow> jsval \<Rightarrow> string option" where
  "serializeJSON K JUndefined = None"
| "serializeJSON K JNull = Some ''null''"
| "serializeJSON K (JBool b) = Some (if b then ''true'' else ''false'')"
| "serializeJSON K (JNum r) = Some r"
| "serializeJSON K (JStr s) = Some (quoteJSONString s)"
| "serializeJSON K (JArr xs) =
     Some (''['' @ join '','' (map (\<lambda>x. case serializeJSON K x of None \<Rightarrow> ''null'' | Some s \<Rightarrow> s) xs) @ '']'')"
| "serializeJSON K (JObj ms) =
     (let written = map (\<lambda>(k, v). (k, serializeJSON K v)) ms
      in Some (''{'' @ join '',''
            (concat (map (\<lambda>k. case map_of written k of
                                  Some (Some s) \<Rightarrow> [quoteJSONString k @ '':'' @ s]
                                | _ \<Rightarrow> []) K)) @ ''}''))"

text \<open>\<open>JSON.stringify(value, Object.keys(value).sort())\<close> for an object \<open>value\<close>: the keys
  are sorted by code unit.\<close>

definition stringifySortedKeys :: "(string \<times> jsval) list \<Rightarrow> string" where
  "stringifySortedKeys ms =
     (case serializeJSON (sort (map fst ms)) (JObj ms) of Some s \<Rightarrow> s | None \<Rightarrow> [])"

subsection \<open>The 32-bit rolling hash\<close>

text \<open>\<open>ToInt32\<close>, which \<open><<\<close> and \<open>&\<close> apply to their operands and results.\<close>

definition toInt32 :: "int \<Rightarrow> int" where
  "toInt32 x = (x + 2 ^ 31) mod 2 ^ 32 - 2 ^ 31"

definition hashStep :: "int \<Rightarrow> char \<Rightarrow> int" where
  "hashStep hash c = toInt32 ((toInt32 (toInt32 hash * 2 ^ 5) - hash) + of_char c)"

fun hashLoop :: "int \<Rightarrow> string \<Rightarrow> int" where
  "hashLoop hash [] = hash"
| "hashLoop hash (c # cs) = hashLoop (hashStep hash c) cs"

definition digit36 :: "nat \<Rightarrow> char" where
  "digit36 n = (''0123456789abcdefghijklmnopqrstuvwxyz'') ! (n mod 36)"

function toString36 :: "nat \<Rightarrow> string" where
  "toString36 n = (if n < 36 then [digit36 n] else toString36 (n div 36) @ [digit36 n])"
  by pat_completeness auto
termination
  by (relation "measure id") auto

declare toString36.simps [simp del]

definition hashString :: "string \<Rightarrow> string" where
  "hashString dataString = toString36 (nat \<bar>hashLoop 0 dataString\<bar>)"

section \<open>CacheService: fingerprints\<close>

text \<open>The filter callback of \<open>generateComponentChecksum\<close>,
  \<open>v.affects && v.affects.some(a => a.ref === (component["bom-ref"] || component.bomRef))\<close>.
  \<open>some\<close> stops at the first match; it exists on arrays only.\<close>

definition componentRef :: "jsval \<Rightarrow> js_error + jsval" where
  "componentRef component =
     (case js_get component ''bom-ref'' of
        Inl e \<Rightarrow> Inl e
      | Inr r \<Rightarrow> if truthy r then Inr r else js_get component ''bomRef'')"

fun someAffects :: "jsval \<Rightarrow> jsval list \<Rightarrow> js_error + bool" where
  "someAffects component [] = Inr False"
| "someAffects component (a # as) =
     (case js_get a ''ref'' of
        Inl e \<Rightarrow> Inl e
      | Inr r \<Rightarrow>
          (case componentRef component of
             Inl e \<Rightarrow> Inl e
           | Inr cref \<Rightarrow> if strict_eq r cref then Inr True else someAffects component as))"

definition affectsComponent :: "jsval \<Rightarrow> jsval \<Rightarrow> js_error + bool" where
  "affectsComponent component v =
     (case js_get v ''affects'' of
        Inl e \<Rightarrow> Inl e
      | Inr affects \<Rightarrow>
          if \<not> truthy affects then Inr False
          else (case affects of JArr as \<Rightarrow> someAffects component as | _ \<Rightarrow> Inl TypeError))"

text \<open>\<open>Array.prototype.filter\<close> with a callback that may throw.\<close>

fun filterE :: "('a \<Rightarrow> js_error + bool) \<Rightarrow> 'a list \<Rightarrow> js_error + 'a list" where
  "filterE p [] = Inr []"
| "filterE p (x # xs) =
     (case p x of
        Inl e \<Rightarrow> Inl e
      | Inr b \<Rightarrow> (case filterE p xs of
                   Inl e \<Rightarrow> Inl e
                 | Inr ys \<Rightarrow> Inr (if b then x # ys else ys)))"

definition componentData :: "jsval \<Rightarrow> jsval list \<Rightarrow> js_error + (string \<times> jsval) list" where
  "componentData component sbomVulnerabilities =
     (case js_get component ''name'' of
        Inl e \<Rightarrow> Inl e
      | Inr name \<Rightarrow>
     (case js_get component ''version'' of Inl e \<Rightarrow> Inl e | Inr version \<Rightarrow>
     (case js_get component ''purl'' of Inl e \<Rightarrow> Inl e | Inr purl \<Rightarrow>
     (case js_get component ''group'' of Inl e \<Rightarrow> Inl e | Inr grp \<Rightarrow>
     (case js_get component ''externalReferences'' of Inl e \<Rightarrow> Inl e | Inr refs \<Rightarrow>
     (case filterE (affectsComponent component) sbomVulnerabilities of
        Inl e \<Rightarrow> Inl e
      | Inr vs \<Rightarrow>
          Inr [(''name'', name), (''version'', version), (''purl'', purl), (''group'', grp),
               (''externalReferences'', refs), (''vulnerabilities'', JArr vs)]))))))"

definition generateComponentChecksum :: "jsval \<Rightarrow> jsval list \<Rightarrow> js_error + string" where
  "generateComponentChecksum component sbomVulnerabilities =
     (case componentData component sbomVulnerabilities of
        Inl e \<Rightarrow> Inl e
      | Inr d \<Rightarrow> Inr (''component:'' @ hashString (stringifySortedKeys d)))"

text \<open>\<open>generateFileChecksum\<close>. \<open>sbomData.components?.map(...)\<close> is \<open>undefined\<close> when
  \<open>components\<close> is \<open>null\<close> or \<open>undefined\<close> and throws when it is any other value without
  a \<open>map\<close> method.\<close>

definition js_get_opt :: "jsval \<Rightarrow> string \<Rightarrow> js_error + jsval" where
  "js_get_opt v k = (case v of JUndefined \<Rightarrow> Inr JUndefined | JNull \<Rightarrow> Inr JUndefined | _ \<Rightarrow> js_get v k)"

fun mapE :: "('a \<Rightarrow> js_error + 'b) \<Rightarrow> 'a list \<Rightarrow> js_error + 'b list" where
  "mapE f [] = Inr []"
| "mapE f (x # xs) =
     (case f x of
        Inl e \<Rightarrow> Inl e
      | Inr y \<Rightarrow> (case mapE f xs of Inl e \<Rightarrow> Inl e | Inr ys \<Rightarrow> Inr (y # ys)))"

definition fileComponent :: "jsval \<Rightarrow> js_error + jsval" where
  "fileComponent c =
     (case js_get c ''name'' of Inl e \<Rightarrow> Inl e | Inr name \<Rightarrow>
     (case js_get c ''version'' of Inl e \<Rightarrow> Inl e | Inr version \<Rightarrow>
     (case js_get c ''purl'' of Inl e \<Rightarrow> Inl e | Inr purl \<Rightarrow>
     (case js_get c ''group'' of Inl e \<Rightarrow> Inl e | Inr grp \<Rightarrow>
     (case js_get c ''externalReferences'' of Inl e \<Rightarrow> Inl e | Inr refs \<Rightarrow>
     (case componentRef c of Inl e \<Rightarrow> Inl e | Inr bomRef \<Rightarrow>
        Inr (JObj [(''name'', name), (''version'', version), (''purl'', purl), (''group'', grp),
                   (''externalReferences'', refs), (''bomRef'', bomRef)])))))))"

definition fileData :: "jsval \<Rightarrow> js_error + (string \<times> jsval) list" where
  "fileData sbomData =
     (case js_get sbomData ''components'' of
        Inl e \<Rightarrow> Inl e
      | Inr comps \<Rightarrow>
     (case (case comps of
              JUndefined \<Rightarrow> Inr (JArr [])
            | JNull \<Rightarrow> Inr (JArr [])
            | JArr cs \<Rightarrow> (case mapE fileComponent cs of Inl e \<Rightarrow> Inl e | Inr ds \<Rightarrow> Inr (JArr ds))
            | _ \<Rightarrow> Inl TypeError) of
        Inl e \<Rightarrow> Inl e
      | Inr components \<Rightarrow>
     (case js_get sbomData ''vulnerabilities'' of
        Inl e \<Rightarrow> Inl e
      | Inr vulns \<Rightarrow>
     (case js_get sbomData ''metadata'' of
        Inl e \<Rightarrow> Inl e
      | Inr metadata \<Rightarrow>
     (case js_get_opt metadata ''timestamp'' of
        Inl e \<Rightarrow> Inl e
      | Inr timestamp \<Rightarrow>
     (case js_get_opt metadata ''version'' of
        Inl e \<Rightarrow> Inl e
      | Inr version \<Rightarrow>
          Inr [(''components'', components),
               (''vulnerabilities'', if truthy vulns then vulns else JArr []),
               (''metadata'', JObj [(''timestamp'', timestamp), (''version'', version)])]))))))"

definition generateFileChecksum :: "jsval \<Rightarrow> js_error + string" where
  "generateFileChecksum sbomData =
     (case fileData sbomData of
        Inl e \<Rightarrow> Inl e
      | Inr d \<Rightarrow> Inr (''file:'' @ hashString (stringifySortedKeys d)))"

section \<open>CacheService: the store\<close>

text \<open>
  The \<open>Map\<close> of the service is the list of its entries in insertion order: \<open>Map.set\<close>
  replaces the value of a key where it stands and appends a new key
  (\<^const>\<open>AList.update\<close>), \<open>Map.delete\<close> removes it (\<^const>\<open>AList.delete\<close>). An entry holds
  either the value that \<open>set\<close> stored, or the wrapper \<open>{value, timestamp, ttl}\<close> that
  \<open>setWithTTL\<close> stored.

  \<open>localStorage\<close> holds at most one item under the storage key. Seen through
  \<open>JSON.parse\<close> it is: the empty string (falsy, so \<open>loadFromStorage\<close> skips it); a text
  on which \<open>JSON.parse\<close> throws, or which parses to \<open>null\<close>, so that reading
  \<open>data.timestamp\<close> throws; or an object with the fields \<open>cache\<close>, \<open>timestamp\<close> and
  \<open>sessionStartTime\<close>, each possibly missing, and \<open>cache\<close> possibly not a list of pairs
  (then \<open>new Map\<close> throws). \<open>getItem\<close> and \<open>removeItem\<close> do not throw; \<open>setItem\<close> throws when
  the quota is exceeded. \<open>Date.now()\<close> is the argument \<open>now\<close> of each operation.
\<close>

datatype 'v slot = Plain 'v | Timed 'v int int

datatype 'v cacheField = CacheMissing | CacheMalformed | CacheEntries "(string \<times> 'v slot) list"

record 'v snapshot =
  snap_cache :: "'v cacheField"
  snap_timestamp :: "int option"
  snap_sessionStartTime :: "int option"

datatype 'v stored = EmptyText | Corrupt | Snapshot "'v snapshot"

record 'v cacheService =
  cache :: "(string \<times> 'v slot) list"
  sessionStartTime :: int
  storage :: "'v stored option"
  quotaExceeded :: bool

record cacheStats =
  stats_size :: nat
  stats_sessionDuration :: int
  stats_keys :: "string list"


definition clearStorage :: "'v cacheService \<Rightarrow> 'v cacheService" where
  "clearStorage s = s\<lparr>storage := None\<rparr>"





definition saveToStorage :: "int \<Rightarrow> 'v cacheService \<Rightarrow> 'v cacheService" where
  "saveToStorage now s =
     (if quotaExceeded s then s
      else s\<lparr>storage := Some (Snapshot \<lparr>snap_cache = CacheEntries (cache s),
                                         snap_timestamp = Some now,
                                         snap_sessionStartTime = Some (sessionStartTime s)\<rparr>)\<rparr>)"

text \<open>\<open>generateKey(type, ...params)\<close>; \<open>join\<close> writes a missing parameter as the empty string.\<close>

definition generateKey :: "string \<Rightarrow> string option list \<Rightarrow> string" where
  "generateKey type params =
     type @ '':'' @ join '':'' (map (\<lambda>p. case p of None \<Rightarrow> [] | Some x \<Rightarrow> x) params)"

definition get :: "'v cacheService \<Rightarrow> string \<Rightarrow> 'v slot option" where
  "get s key = map_of (cache s) key"

definition set_value :: "int \<Rightarrow> string \<Rightarrow> 'v \<Rightarrow> 'v cacheService \<Rightarrow> 'v cacheService" where
  "set_value now key v s = saveToStorage now (s\<lparr>cache := AList.update key (Plain v) (cache s)\<rparr>)"

definition has :: "'v cacheService \<Rightarrow> string \<Rightarrow> bool" where
  "has s key = (map_of (cache s) key \<noteq> None)"

definition clear :: "int \<Rightarrow> 'v cacheService \<Rightarrow> 'v cacheService" where
  "clear now s = clearStorage (s\<lparr>cache := [], sessionStartTime := now\<rparr>)"

definition getStats :: "int \<Rightarrow> 'v cacheService \<Rightarrow> cacheStats" where
  "getStats now s =
     \<lparr>stats_size = length (cache s),
      stats_sessionDuration = now - sessionStartTime s,
      stats_keys = map fst (cache s)\<rparr>"

definition setWithTTL :: "int \<Rightarrow> string \<Rightarrow> 'v \<Rightarrow> int \<Rightarrow> 'v cacheService \<Rightarrow> 'v cacheService" where
  "setWithTTL now key v ttlMs s =
     saveToStorage now (s\<lparr>cache := AList.update key (Timed v now ttlMs) (cache s)\<rparr>)"

text \<open>\<open>getWithTTL\<close> returns \<open>null\<close> (\<open>None\<close>) or \<open>entry.value\<close>. A value stored by plain
  \<open>set\<close> (a property set, a component list, a record of a data source) has neither a
  \<open>ttl\<close> nor a \<open>value\<close> field, so the read of \<open>entry.value\<close> gives nothing.\<close>

definition getWithTTL :: "int \<Rightarrow> string \<Rightarrow> 'v cacheService \<Rightarrow> 'v option \<times> 'v cacheService" where
  "getWithTTL now key s =
     (case map_of (cache s) key of
        None \<Rightarrow> (None, s)
      | Some (Plain x) \<Rightarrow> (None, s)
      | Some (Timed v timestamp ttl) \<Rightarrow>
          if ttl > 0 \<and> now - timestamp > ttl
          then (None, saveToStorage now (s\<lparr>cache := AList.delete key (cache s)\<rparr>))
          else (Some v, s))"

section \<open>The SBOM document, typed\<close>

text \<open>
  PropertyMapperService and App read fixed fields of a CycloneDX component and of the
  document's vulnerability records. These are records whose optional fields are
  \<open>None\<close> when the member is missing; \<open>component_json\<close> and \<open>vulnerability_json\<close> give
  the parsed object a record stands for, which is what the fingerprint functions
  receive.
\<close>

record externalReference =
  ref_type :: "string option"
  ref_url :: "string option"

record component =
  c_name :: "string option"
  c_version :: "string option"
  c_purl :: "string option"
  c_group :: "string option"
  c_bom_ref :: "string option"
  c_bomRef :: "string option"
  c_externalReferences :: "externalReference list option"
  c_properties :: "(string \<times> string) list option"

record rating =
  r_severity :: "string option"

record affect =
  a_ref :: "string option"

record vulnerability =
  v_id :: "string option"
  v_affects :: "affect list option"
  v_ratings :: "rating list option"

definition jsMember :: "string \<Rightarrow> ('a \<Rightarrow> jsval) \<Rightarrow> 'a option \<Rightarrow> (string \<times> jsval) list" where
  "jsMember k enc x = (case x of None \<Rightarrow> [] | Some y \<Rightarrow> [(k, enc y)])"

definition externalReference_json :: "externalReference \<Rightarrow> jsval" where
  "externalReference_json r = JObj (jsMember ''type'' JStr (ref_type r) @ jsMember ''url'' JStr (ref_url r))"

definition property_json :: "string \<times> string \<Rightarrow> jsval" where
  "property_json p = JObj [(''name'', JStr (fst p)), (''value'', JStr (snd p))]"

definition component_json :: "component \<Rightarrow> jsval" where
  "component_json c =
     JObj (jsMember ''bom-ref'' JStr (c_bom_ref c) @ jsMember ''bomRef'' JStr (c_bomRef c)
         @ jsMember ''group'' JStr (c_group c) @ jsMember ''name'' JStr (c_name c)
         @ jsMember ''version'' JStr (c_version c) @ jsMember ''purl'' JStr (c_purl c)
         @ jsMember ''externalReferences'' (\<lambda>rs. JArr (map externalReference_json rs)) (c_externalReferences c)
         @ jsMember ''properties'' (\<lambda>ps. JArr (map property_json ps)) (c_properties c))"

definition rating_json :: "rating \<Rightarrow> jsval" where
  "rating_json r = JObj (jsMember ''severity'' JStr (r_severity r))"

definition affect_json :: "affect \<Rightarrow> jsval" where
  "affect_json a = JObj (jsMember ''ref'' JStr (a_ref a))"

definition vulnerability_json :: "vulnerability \<Rightarrow> jsval" where
  "vulnerability_json v =
     JObj (jsMember ''id'' JStr (v_id v)
         @ jsMember ''ratings'' (\<lambda>rs. JArr (map rating_json rs)) (v_ratings v)
         @ jsMember ''affects'' (\<lambda>as. JArr (map affect_json as)) (v_affects v))"

section \<open>Strings\<close>

text \<open>A string-valued expression is truthy when it is present and not empty.\<close>

definition truthyStr :: "string option \<Rightarrow> bool" where
  "truthyStr x = (case x of None \<Rightarrow> False | Some s \<Rightarrow> s \<noteq> [])"

text \<open>\<open>a || b\<close> on optional strings.\<close>

definition orElse :: "string option \<Rightarrow> string option \<Rightarrow> string option" where
  "orElse a b = (if truthyStr a then a else b)"

text \<open>\<open>toLowerCase\<close> and \<open>toUpperCase\<close> on ASCII text: only the letters \<open>A\<close> to \<open>Z\<close> and
  \<open>a\<close> to \<open>z\<close> change.\<close>

definition upperLetters :: string where
  "upperLetters = ''ABCDEFGHIJKLMNOPQRSTUVWXYZ''"

definition lowerLetters :: string where
  "lowerLetters = ''abcdefghijklmnopqrstuvwxyz''"

definition toLowerChar :: "char \<Rightarrow> char" where
  "toLowerChar c = (case map_of (zip upperLetters lowerLetters) c of None \<Rightarrow> c | Some l \<Rightarrow> l)"

definition toUpperChar :: "char \<Rightarrow> char" where
  "toUpperChar c = (case map_of (zip lowerLetters upperLetters) c of None \<Rightarrow> c | Some u \<Rightarrow> u)"

definition toLowerCase :: "string \<Rightarrow> string" where
  "toLowerCase s = map toLowerChar s"

definition toUpperCase :: "string \<Rightarrow> string" where
  "toUpperCase s = map toUpperChar s"

fun startsWith :: "string \<Rightarrow> string \<Rightarrow> bool" where
  "startsWith s [] = True"
| "startsWith [] (p # ps) = False"
| "startsWith (c # cs) (p # ps) = (c = p \<and> startsWith cs ps)"

fun includesStr :: "string \<Rightarrow> string \<Rightarrow> bool" where
  "includesStr [] pat = (pat = [])"
| "includesStr (c # cs) pat = (startsWith (c # cs) pat \<or> includesStr cs pat)"

text \<open>\<open>s.split(sep)\<close> for a one-character separator.\<close>

fun splitOn :: "char \<Rightarrow> string \<Rightarrow> string list" where
  "splitOn sep [] = [[]]"
| "splitOn sep (c # cs) =
     (if c = sep then [] # splitOn sep cs
      else (case splitOn sep cs of [] \<Rightarrow> [[c]] | p # ps \<Rightarrow> (c # p) # ps))"

text \<open>\<open>s.replace(pat, rep)\<close> for a string pattern: the first occurrence only.\<close>

fun replaceFirst :: "string \<Rightarrow> string \<Rightarrow> string \<Rightarrow> string" where
  "replaceFirst pat rep [] = (if pat = [] then rep else [])"
| "replaceFirst pat rep (c # cs) =
     (if startsWith (c # cs) pat then rep @ drop (length pat) (c # cs)
      else c # replaceFirst pat rep cs)"

text \<open>\<open>xs.slice(-2)\<close>.\<close>

definition sliceLast2 :: "'a list \<Rightarrow> 'a list" where
  "sliceLast2 xs = drop (length xs - 2) xs"

text \<open>The decimal text of a non-negative integer, as a template literal writes it for
  the counts met here (integers below \<open>2^53\<close>, which a double holds exactly and prints in
  full).\<close>

definition digit10 :: "nat \<Rightarrow> char" where
  "digit10 n = (''0123456789'') ! (n mod 10)"

function showNat :: "nat \<Rightarrow> string" where
  "showNat n = (if n < 10 then [digit10 n] else showNat (n div 10) @ [digit10 n])"
  by pat_completeness auto
termination
  by (relation "measure id") auto

declare showNat.simps [simp del]

text \<open>\<open>xs.indexOf(x)\<close>.\<close>

fun indexOf :: "'a list \<Rightarrow> 'a \<Rightarrow> int" where
  "indexOf [] x = -1"
| "indexOf (y # ys) x = (if y = x then 0 else (let i = indexOf ys x in if i < 0 then -1 else i + 1))"

section \<open>PropertyMapperService\<close>

text \<open>
  The package registry, vulnerability, repository and lifecycle services are the
  collaborators of PropertyMapperService; it consumes their results only. A result is a
  record with optional fields, or \<open>null\<close> (\<open>None\<close>); a call is either fulfilled (\<open>Inr\<close>) or
  rejected (\<open>Inl\<close>). The CVSS score is a rational number: every finite double is one, and
  the code only compares it with integers.
\<close>

record pkgInfo =
  pi_ecosystem :: "string option"
  pi_name :: "string option"
  pi_group :: "string option"
  pi_version :: "string option"

record packageData =
  pd_releaseDate :: "string option"
  pd_license :: "string option"
  pd_latestVersion :: "string option"
  pd_author :: "string option"
  pd_description :: "string option"

record vulnData =
  vd_hasVulnerabilities :: bool
  vd_totalVulns :: "nat option"
  vd_fixedVersions :: "string list option"
  vd_maxCvssScore :: "rat option"
  vd_severity :: "string option"

record githubData =
  gh_releaseDate :: "string option"
  gh_license :: "string option"
  gh_stars :: "nat option"

text \<open>A property set is the object \<open>props\<close>: its members in insertion order, a value
  being a string or \<open>null\<close>.\<close>

type_synonym propertySet = "(string \<times> string option) list"

text \<open>\<open>props[key]\<close>: \<open>None\<close> when the member is missing or \<open>null\<close>.\<close>

definition propValue :: "propertySet \<Rightarrow> string \<Rightarrow> string option" where
  "propValue props key = (case map_of props key of None \<Rightarrow> None | Some v \<Rightarrow> v)"

text \<open>What the shared cache holds: results of the data sources under the keys
  \<open>npm:\<close>, \<open>pypi:\<close>, \<open>maven:\<close>, \<open>vuln:\<close> and \<open>github:\<close>, property sets under
  \<open>component:\<close>, component lists under \<open>file:\<close>. A read of a value of another kind
  finds none of the fields it looks for.\<close>

datatype cval =
    VNull
  | VPkg packageData
  | VVuln vulnData
  | VGh githubData
  | VProps propertySet
  | VComponents "component list"

fun as_pkg :: "cval slot option \<Rightarrow> packageData option" where
  "as_pkg (Some (Plain (VPkg d))) = Some d"
| "as_pkg x = None"

fun as_vuln :: "cval slot option \<Rightarrow> vulnData option" where
  "as_vuln (Some (Plain (VVuln d))) = Some d"
| "as_vuln x = None"

fun as_gh :: "cval slot option \<Rightarrow> githubData option" where
  "as_gh (Some (Plain (VGh d))) = Some d"
| "as_gh x = None"

fun as_props :: "cval slot option \<Rightarrow> propertySet" where
  "as_props (Some (Plain (VProps p))) = p"
| "as_props x = []"

record services =
  extractPackageInfo :: "component \<Rightarrow> pkgInfo option"
  fetchNpmData :: "string option \<Rightarrow> js_error + packageData option"
  fetchPyPiData :: "string option \<Rightarrow> js_error + packageData option"
  fetchMavenData :: "string option \<Rightarrow> string option \<Rightarrow> js_error + packageData option"
  fetchVulnerabilityData :: "pkgInfo option \<Rightarrow> js_error + vulnData option"
  determineCriticality :: "vulnData option \<Rightarrow> string option"
  fetchGitHubData :: "string option \<Rightarrow> js_error + githubData option"
  fetchEol :: "component \<Rightarrow> pkgInfo option \<Rightarrow> js_error + string option"

subsection \<open>Fingerprints of typed components\<close>

definition componentChecksum :: "component \<Rightarrow> vulnerability list \<Rightarrow> js_error + string" where
  "componentChecksum c sbomVulnerabilities =
     generateComponentChecksum (component_json c) (map vulnerability_json sbomVulnerabilities)"

definition setComponentResult ::
  "int \<Rightarrow> component \<Rightarrow> vulnerability list \<Rightarrow> propertySet \<Rightarrow> cval cacheService
     \<Rightarrow> js_error + cval cacheService" where
  "setComponentResult now c sbomVulnerabilities result s =
     (case componentChecksum c sbomVulnerabilities of
        Inl e \<Rightarrow> Inl e
      | Inr checksum \<Rightarrow> Inr (set_value now checksum (VProps result) s))"

definition getComponentResult ::
  "cval cacheService \<Rightarrow> component \<Rightarrow> vulnerability list \<Rightarrow> js_error + cval slot option" where
  "getComponentResult s c sbomVulnerabilities =
     (case componentChecksum c sbomVulnerabilities of
        Inl e \<Rightarrow> Inl e
      | Inr checksum \<Rightarrow> Inr (get s checksum))"

definition hasComponentResult ::
  "cval cacheService \<Rightarrow> component \<Rightarrow> vulnerability list \<Rightarrow> js_error + bool" where
  "hasComponentResult s c sbomVulnerabilities =
     (case componentChecksum c sbomVulnerabilities of
        Inl e \<Rightarrow> Inl e
      | Inr checksum \<Rightarrow> Inr (has s checksum))"

subsection \<open>Derivation rules\<close>

definition computePatchStatus :: "vulnData option \<Rightarrow> pkgInfo option \<Rightarrow> packageData option \<Rightarrow> string" where
  "computePatchStatus vulnData pkgInfo pkgData =
     (if (case vulnData of None \<Rightarrow> False | Some vd \<Rightarrow> vd_hasVulnerabilities vd) then
        (case Option.bind vulnData vd_fixedVersions of
           Some (v # vs) \<Rightarrow> ''Update available (>= '' @ v @ '')''
         | _ \<Rightarrow> ''Update available (>= NA)'')
      else
        (case (Option.bind pkgData pd_latestVersion, Option.bind pkgInfo pi_version) of
           (Some latest, Some installed) \<Rightarrow>
             if latest \<noteq> [] \<and> installed \<noteq> [] \<and> latest \<noteq> installed
             then ''Update available (latest '' @ latest @ '')''
             else ''Up to date''
         | _ \<Rightarrow> ''Up to date''))"

definition severityOrder :: "string list" where
  "severityOrder = [''CRITICAL'', ''HIGH'', ''MEDIUM'', ''LOW'']"

text \<open>One round of the loop of \<open>determineCriticalityFromSbom\<close>. The comparator
  \<open>order.indexOf(a) - order.indexOf(b)\<close> makes the (stable) sort a sort by that index.\<close>

definition criticalityStep :: "string option \<Rightarrow> string option \<Rightarrow> vulnerability \<Rightarrow> string option" where
  "criticalityStep ref mx v =
     (case v_affects v of
        None \<Rightarrow> mx
      | Some affects \<Rightarrow>
     (case v_ratings v of
        None \<Rightarrow> mx
      | Some ratings \<Rightarrow>
          if ratings = [] then mx
          else if \<not> list_ex (\<lambda>a. truthyStr (a_ref a) \<and> truthyStr ref \<and> a_ref a = ref) affects then mx
          else
            (case sort_key (indexOf severityOrder)
                    (map (\<lambda>r. toUpperCase (case orElse (r_severity r) (Some []) of
                                              None \<Rightarrow> [] | Some x \<Rightarrow> x)) ratings) of
               [] \<Rightarrow> mx
             | highest # rest \<Rightarrow>
                 if highest = [] then mx
                 else (case mx of
                         None \<Rightarrow> Some highest
                       | Some m \<Rightarrow>
                           if indexOf severityOrder highest < indexOf severityOrder m
                           then Some highest else mx))))"

definition determineCriticalityFromSbom :: "vulnerability list \<Rightarrow> component \<Rightarrow> string option" where
  "determineCriticalityFromSbom sbomVulns c =
     (if sbomVulns = [] then None
      else (case foldl (criticalityStep (orElse (c_bom_ref c) (c_bomRef c))) None sbomVulns of
              None \<Rightarrow> None
            | Some m \<Rightarrow> if m = [] then None else Some (take 1 m @ toLowerCase (drop 1 m))))"

definition determineCriticalityFromOsv :: "vulnData option \<Rightarrow> string option" where
  "determineCriticalityFromOsv vulnData =
     (let score = (case Option.bind vulnData vd_maxCvssScore of None \<Rightarrow> 0 | Some x \<Rightarrow> x)
      in if score \<ge> 9 then Some ''Critical''
         else if score \<ge> 7 then Some ''High''
         else if score \<ge> 4 then Some ''Medium''
         else if score > 0 then Some ''Low''
         else None)"

definition determineUsageRestrictions :: "string option \<Rightarrow> string" where
  "determineUsageRestrictions license =
     (case license of
        None \<Rightarrow> ''NA''
      | Some lic \<Rightarrow>
          if lic = [] then ''NA''
          else (let l = toLowerCase lic
                in if includesStr l ''agpl'' then ''AGPL License - Strong copyleft restrictions''
                   else if includesStr l ''gpl'' then ''GPL License - Copyleft restrictions apply''
                   else if includesStr l ''mit'' \<or> includesStr l ''apache''
                     then ''Permissive license - Minimal restrictions''
                   else ''NA''))"

definition starsOf :: "githubData option \<Rightarrow> nat" where
  "starsOf githubData = (case Option.bind githubData gh_stars of None \<Rightarrow> 0 | Some n \<Rightarrow> n)"

definition determineOrigin :: "packageData option \<Rightarrow> githubData option \<Rightarrow> string" where
  "determineOrigin packageData githubData =
     (if starsOf githubData > 0 then ''Open-source''
      else (case Option.bind packageData pd_license of
              None \<Rightarrow> ''Open-source''
            | Some lic \<Rightarrow>
                if lic \<noteq> [] \<and> includesStr (toLowerCase lic) ''proprietary''
                then ''Proprietary'' else ''Open-source''))"

definition determineSupplier :: "packageData option \<Rightarrow> githubData option \<Rightarrow> string" where
  "determineSupplier packageData githubData =
     (if starsOf githubData > 0 then ''Open-source''
      else if truthyStr (Option.bind packageData pd_author) then ''Vendor''
      else ''Third-party'')"

definition purlIdentifier :: "component \<Rightarrow> string \<Rightarrow> string option" where
  "purlIdentifier c supplier =
     (case c_purl c of
        None \<Rightarrow> None
      | Some purl \<Rightarrow>
          if purl = [] then None
          else (case splitOn CHR ''/'' purl of
                  p0 # p1 # ps \<Rightarrow>
                    Some (''pkg:supplier/'' @ supplier @ ''/'' @ replaceFirst ''pkg:'' [] p0
                          @ ''/'' @ last (p0 # p1 # ps))
                | _ \<Rightarrow> None))"

definition generateUniqueIdentifier :: "component \<Rightarrow> pkgInfo option \<Rightarrow> string \<Rightarrow> string" where
  "generateUniqueIdentifier c pkgInfo supplier =
     (case purlIdentifier c supplier of
        Some ident \<Rightarrow> ident
      | None \<Rightarrow>
          (case (Option.bind pkgInfo pi_ecosystem, Option.bind pkgInfo pi_name) of
             (Some eco, Some name) \<Rightarrow>
               if eco \<noteq> [] \<and> name \<noteq> [] then
                 (let ecosystem = toLowerCase eco;
                      version = (case c_version c of
                                   None \<Rightarrow> []
                                 | Some v \<Rightarrow> if v = [] then [] else ''@'' @ v)
                  in (case Option.bind pkgInfo pi_group of
                        Some g \<Rightarrow>
                          if ecosystem = ''maven'' \<and> g \<noteq> []
                          then ''pkg:supplier/'' @ supplier @ ''/'' @ ecosystem @ ''/'' @ g @ ''/'' @ name @ version
                          else ''pkg:supplier/'' @ supplier @ ''/'' @ ecosystem @ ''/'' @ name @ version
                      | None \<Rightarrow> ''pkg:supplier/'' @ supplier @ ''/'' @ ecosystem @ ''/'' @ name @ version))
               else (case orElse (c_name c) (Some ''NA'') of None \<Rightarrow> ''NA'' | Some n \<Rightarrow> n)
           | _ \<Rightarrow> (case orElse (c_name c) (Some ''NA'') of None \<Rightarrow> ''NA'' | Some n \<Rightarrow> n)))"

definition buildComments :: "packageData option \<Rightarrow> vulnData option \<Rightarrow> githubData option \<Rightarrow> string" where
  "buildComments packageData vulnData githubData =
     (let notes =
            (case Option.bind packageData pd_description of
               None \<Rightarrow> []
             | Some d \<Rightarrow> if d = [] then [] else [''Description: '' @ d])
          @ (case Option.bind vulnData vd_totalVulns of
               None \<Rightarrow> []
             | Some n \<Rightarrow> if n > 0 then [showNat n @ '' known vulnerabilities''] else [])
          @ (if starsOf githubData > 100
             then [''Popular project ('' @ showNat (starsOf githubData) @ '' stars)''] else [])
      in if notes = [] then ''NA'' else join ''; '' notes)"

subsection \<open>Cache keys of the data sources\<close>

definition pkgKey :: "pkgInfo option \<Rightarrow> string option" where
  "pkgKey pkgInfo =
     (if Option.bind pkgInfo pi_ecosystem = Some ''npm''
        then Some (generateKey ''npm'' [Option.bind pkgInfo pi_name])
      else if Option.bind pkgInfo pi_ecosystem = Some ''pypi''
        then Some (generateKey ''pypi'' [Option.bind pkgInfo pi_name])
      else if Option.bind pkgInfo pi_ecosystem = Some ''maven''
        then Some (generateKey ''maven'' [Option.bind pkgInfo pi_group, Option.bind pkgInfo pi_name])
      else None)"

definition vulnKey :: "pkgInfo \<Rightarrow> string" where
  "vulnKey info = generateKey ''vuln'' [pi_ecosystem info, pi_name info]"

definition ghKey :: "string option \<Rightarrow> string option" where
  "ghKey repoUrl =
     (case repoUrl of
        None \<Rightarrow> None
      | Some url \<Rightarrow>
          if url = [] then None
          else Some (generateKey ''github'' [Some (join ''/'' (sliceLast2 (splitOn CHR ''/'' url)))]))"

text \<open>\<open>!key || cacheService.has(key)\<close>.\<close>

definition keyCached :: "cval cacheService \<Rightarrow> string option \<Rightarrow> bool" where
  "keyCached s key = (case key of None \<Rightarrow> True | Some k \<Rightarrow> k = [] \<or> has s k)"

definition isAllDataCached :: "cval cacheService \<Rightarrow> component \<Rightarrow> pkgInfo option \<Rightarrow> string option \<Rightarrow> bool" where
  "isAllDataCached s c pkgInfo repoUrl =
     (case pkgInfo of
        None \<Rightarrow> True
      | Some info \<Rightarrow>
          if pi_ecosystem info = Some ''unknown'' then True
          else keyCached s (pkgKey pkgInfo) \<and> keyCached s (Some (vulnKey info)) \<and> keyCached s (ghKey repoUrl))"

definition findRepoUrl :: "component \<Rightarrow> string option" where
  "findRepoUrl c =
     (case find (\<lambda>r. ref_type r = Some ''vcs'' \<or> ref_type r = Some ''repository'')
              (case c_externalReferences c of None \<Rightarrow> [] | Some rs \<Rightarrow> rs) of
        None \<Rightarrow> None
      | Some r \<Rightarrow> if truthyStr (ref_url r) then ref_url r else None)"

subsection \<open>The property set of one component\<close>

text \<open>The block that fills \<open>props\<close> in the full path of \<open>fetchComponentData\<close>, from the four
  results of the joint await.\<close>

definition buildProperties ::
  "services \<Rightarrow> component \<Rightarrow> pkgInfo option \<Rightarrow> vulnerability list
     \<Rightarrow> packageData option \<Rightarrow> vulnData option \<Rightarrow> githubData option \<Rightarrow> string option
     \<Rightarrow> propertySet" where
  "buildProperties S c pkgInfo sbomVulnerabilities pkgData vulnData ghData eolDate =
     (let props =
            [(''Patch Status'', Some (computePatchStatus vulnData pkgInfo pkgData)),
             (''Release Date'',
                orElse (Option.bind pkgData pd_releaseDate)
                  (orElse (Option.bind ghData gh_releaseDate) (Some ''NA''))),
             (''End-of-Life Date'', orElse eolDate (Some ''NA'')),
             (''Criticality'',
                orElse (determineCriticalityFromSbom sbomVulnerabilities c)
                  (orElse (determineCriticalityFromOsv vulnData) (determineCriticality S vulnData))),
             (''Usage Restrictions'',
                Some (determineUsageRestrictions
                        (orElse (Option.bind pkgData pd_license)
                           (orElse (Option.bind ghData gh_license) None)))),
             (''Comments or Notes'', Some (buildComments pkgData vulnData ghData)),
             (''Executable Property'',
                Some (if Option.bind pkgInfo pi_ecosystem = Some ''npm'' then ''Yes'' else ''No'')),
             (''Archive Property'', Some ''No''),
             (''Structured Property'', Some ''Yes''),
             (''Component Supplier'', Some (determineSupplier pkgData ghData)),
             (''Component Origin'', Some (determineOrigin pkgData ghData)),
             (''Unique Identifier'',
                Some (generateUniqueIdentifier c pkgInfo (determineSupplier pkgData ghData)))];
          recommendationText =
            (case Option.bind vulnData vd_fixedVersions of
               Some (v # vs) \<Rightarrow> Some (''Recommended version: '' @ v)
             | _ \<Rightarrow>
                 if propValue props ''Patch Status'' = Some ''Update available''
                 then Some ''Recommended version: NA'' else None)
      in (case recommendationText of
            None \<Rightarrow> props
          | Some text \<Rightarrow>
              AList.update ''Comments or Notes''
                (if propValue props ''Comments or Notes'' = Some ''NA'' then Some text
                 else Some ((case propValue props ''Comments or Notes'' of None \<Rightarrow> [] | Some x \<Rightarrow> x)
                            @ ''; '' @ text))
                props))"

text \<open>\<open>buildPropertiesFromCachedData\<close>: the same data read from the cache. With no package
  info, \<open>pkgInfo.ecosystem\<close> in the vulnerability key throws.\<close>

definition buildPropertiesFromCachedData ::
  "services \<Rightarrow> cval cacheService \<Rightarrow> component \<Rightarrow> pkgInfo option \<Rightarrow> string option
     \<Rightarrow> vulnerability list \<Rightarrow> js_error + propertySet" where
  "buildPropertiesFromCachedData S s c pkgInfo repoUrl sbomVulnerabilities =
     (let pkgData = (case pkgKey pkgInfo of None \<Rightarrow> None | Some k \<Rightarrow> as_pkg (get s k))
      in case pkgInfo of
           None \<Rightarrow> Inl TypeError
         | Some info \<Rightarrow>
     (let vulnData = as_vuln (get s (vulnKey info));
          ghData = (case ghKey repoUrl of None \<Rightarrow> None | Some k \<Rightarrow> as_gh (get s k))
      in case fetchEol S c pkgInfo of
           Inl e \<Rightarrow> Inl e
         | Inr eolDate \<Rightarrow>
     (let props =
            [(''Patch Status'', Some (computePatchStatus vulnData pkgInfo pkgData)),
             (''Release Date'',
                orElse (Option.bind pkgData pd_releaseDate)
                  (orElse (Option.bind ghData gh_releaseDate) (Some ''NA''))),
             (''End-of-Life Date'', orElse eolDate (Some ''NA'')),
             (''Criticality'',
                orElse (determineCriticalityFromSbom sbomVulnerabilities c)
                  (orElse (determineCriticalityFromOsv vulnData) (determineCriticality S vulnData))),
             (''Usage Restrictions'',
                Some (determineUsageRestrictions
                        (orElse (Option.bind pkgData pd_license)
                           (orElse (Option.bind ghData gh_license) None)))),
             (''Comments or Notes'', Some (buildComments pkgData vulnData ghData)),
             (''Executable Property'',
                Some (if Option.bind pkgInfo pi_ecosystem = Some ''npm'' then ''Yes'' else ''No'')),
             (''Archive Property'', Some ''No''),
             (''Structured Property'', Some ''Yes''),
             (''Component Supplier'', Some (determineSupplier pkgData ghData)),
             (''Component Origin'', Some (determineOrigin pkgData ghData)),
             (''Unique Identifier'',
                Some (generateUniqueIdentifier c pkgInfo (determineSupplier pkgData ghData)))];
          recommendationText =
            (case Option.bind vulnData vd_fixedVersions of
               Some (v # vs) \<Rightarrow> Some (''Recommended version: '' @ v)
             | _ \<Rightarrow>
                 if propValue props ''Patch Status'' = Some ''Update available''
                 then Some ''Recommended version: NA'' else None)
      in Inr (case recommendationText of
                None \<Rightarrow> props
              | Some text \<Rightarrow>
                  AList.update ''Comments or Notes''
                    (if propValue props ''Comments or Notes'' = Some ''NA'' then Some text
                     else Some ((case propValue props ''Comments or Notes'' of None \<Rightarrow> [] | Some x \<Rightarrow> x)
                                @ ''; '' @ text))
                    props))))"

subsection \<open>fetchComponentData\<close>

text \<open>The package call of the joint await: by ecosystem, or \<open>Promise.resolve(null)\<close>.\<close>

definition fetchPackageData :: "services \<Rightarrow> pkgInfo option \<Rightarrow> js_error + packageData option" where
  "fetchPackageData S pkgInfo =
     (if Option.bind pkgInfo pi_ecosystem = Some ''npm''
        then fetchNpmData S (Option.bind pkgInfo pi_name)
      else if Option.bind pkgInfo pi_ecosystem = Some ''pypi''
        then fetchPyPiData S (Option.bind pkgInfo pi_name)
      else if Option.bind pkgInfo pi_ecosystem = Some ''maven''
        then fetchMavenData S (Option.bind pkgInfo pi_group) (Option.bind pkgInfo pi_name)
      else Inr None)"

text \<open>\<open>await Promise.all([...])\<close>: the four values when all four calls are fulfilled, a
  rejection as soon as one call is rejected (or the synchronous \<open>fetchEol\<close> throws).\<close>

definition awaitAll ::
  "services \<Rightarrow> component \<Rightarrow> pkgInfo option \<Rightarrow> string option
     \<Rightarrow> js_error + (packageData option \<times> vulnData option \<times> githubData option \<times> string option)" where
  "awaitAll S c pkgInfo repoUrl =
     (case fetchPackageData S pkgInfo of
        Inl e \<Rightarrow> Inl e
      | Inr pkgData \<Rightarrow>
     (case fetchVulnerabilityData S pkgInfo of
        Inl e \<Rightarrow> Inl e
      | Inr vulnData \<Rightarrow>
     (case fetchGitHubData S repoUrl of
        Inl e \<Rightarrow> Inl e
      | Inr ghData \<Rightarrow>
     (case fetchEol S c pkgInfo of
        Inl e \<Rightarrow> Inl e
      | Inr eolDate \<Rightarrow> Inr (pkgData, vulnData, ghData, eolDate)))))"

definition errorProps :: "component \<Rightarrow> propertySet" where
  "errorProps c =
     [(''Patch Status'', Some ''Error fetching data''),
      (''Release Date'', Some ''NA''),
      (''End-of-Life Date'', Some ''NA''),
      (''Criticality'', Some ''Unknown''),
      (''Usage Restrictions'', Some ''NA''),
      (''Comments or Notes'', Some ''Error occurred while fetching component data''),
      (''Executable Property'', Some ''Unknown''),
      (''Archive Property'', Some ''No''),
      (''Structured Property'', Some ''Yes''),
      (''Unique Identifier'', orElse (c_purl c) (orElse (c_name c) (Some ''NA''))),
      (''Component Supplier'', Some ''Unknown''),
      (''Component Origin'', Some ''Unknown'')]"

text \<open>The \<open>catch\<close> branch: the error property set, cached under the fingerprint. An
  exception of the branch itself rejects the promise of \<open>fetchComponentData\<close>.\<close>

definition catchBranch ::
  "int \<Rightarrow> component \<Rightarrow> vulnerability list \<Rightarrow> cval cacheService
     \<Rightarrow> js_error + propertySet \<times> cval cacheService" where
  "catchBranch now c sbomVulnerabilities s =
     (case setComponentResult now c sbomVulnerabilities (errorProps c) s of
        Inl e \<Rightarrow> Inl e
      | Inr s' \<Rightarrow> Inr (errorProps c, s'))"

text \<open>Return \<open>result\<close> after caching it (the end of both the fast and the full path).\<close>

definition cacheAndReturn ::
  "int \<Rightarrow> component \<Rightarrow> vulnerability list \<Rightarrow> propertySet \<Rightarrow> cval cacheService
     \<Rightarrow> js_error + propertySet \<times> cval cacheService" where
  "cacheAndReturn now c sbomVulnerabilities result s =
     (case setComponentResult now c sbomVulnerabilities result s of
        Inl e \<Rightarrow> catchBranch now c sbomVulnerabilities s
      | Inr s' \<Rightarrow> Inr (result, s'))"

text \<open>The full path: the joint await, then the property block.\<close>

definition fullFetch ::
  "services \<Rightarrow> int \<Rightarrow> component \<Rightarrow> vulnerability list \<Rightarrow> pkgInfo option \<Rightarrow> string option
     \<Rightarrow> cval cacheService \<Rightarrow> js_error + propertySet \<times> cval cacheService" where
  "fullFetch S now c sbomVulnerabilities pkgInfo repoUrl s =
     (case awaitAll S c pkgInfo repoUrl of
        Inl e \<Rightarrow> catchBranch now c sbomVulnerabilities s
      | Inr (pkgData, vulnData, ghData, eolDate) \<Rightarrow>
          cacheAndReturn now c sbomVulnerabilities
            (buildProperties S c pkgInfo sbomVulnerabilities pkgData vulnData ghData eolDate) s)"

text \<open>The fast path, taken when \<open>isAllDataCached\<close> holds.\<close>

definition fastPath ::
  "services \<Rightarrow> int \<Rightarrow> component \<Rightarrow> vulnerability list \<Rightarrow> pkgInfo option \<Rightarrow> string option
     \<Rightarrow> cval cacheService \<Rightarrow> js_error + propertySet \<times> cval cacheService" where
  "fastPath S now c sbomVulnerabilities pkgInfo repoUrl s =
     (case buildPropertiesFromCachedData S s c pkgInfo repoUrl sbomVulnerabilities of
        Inl e \<Rightarrow> catchBranch now c sbomVulnerabilities s
      | Inr result \<Rightarrow> cacheAndReturn now c sbomVulnerabilities result s)"

definition fetchComponentData ::
  "services \<Rightarrow> int \<Rightarrow> component \<Rightarrow> vulnerability list \<Rightarrow> cval cacheService
     \<Rightarrow> js_error + propertySet \<times> cval cacheService" where
  "fetchComponentData S now c sbomVulnerabilities s =
     (case hasComponentResult s c sbomVulnerabilities of
        Inl e \<Rightarrow> catchBranch now c sbomVulnerabilities s
      | Inr True \<Rightarrow>
          (case getComponentResult s c sbomVulnerabilities of
             Inl e \<Rightarrow> catchBranch now c sbomVulnerabilities s
           | Inr cached \<Rightarrow> Inr (as_props cached, s))
      | Inr False \<Rightarrow>
          (let pkgInfo = extractPackageInfo S c;
               repoUrl = findRepoUrl c
           in if isAllDataCached s c pkgInfo repoUrl
              then fastPath S now c sbomVulnerabilities pkgInfo repoUrl s
              else fullFetch S now c sbomVulnerabilities pkgInfo repoUrl s))"

section \<open>App: merging the derived properties into the components\<close>

definition CERT_IN_PROPERTIES :: "string list" where
  "CERT_IN_PROPERTIES =
     [''Patch Status'', ''Release Date'', ''End-of-Life Date'', ''Criticality'',
      ''Usage Restrictions'', ''Comments or Notes'', ''Executable Property'',
      ''Archive Property'', ''Structured Property'', ''Unique Identifier'',
      ''Component Supplier'', ''Component Origin'']"

text \<open>\<open>xs.findIndex(p)\<close>, \<open>None\<close> for \<open>-1\<close>.\<close>

fun findIndex :: "('a \<Rightarrow> bool) \<Rightarrow> 'a list \<Rightarrow> nat option" where
  "findIndex p [] = None"
| "findIndex p (x # xs) =
     (if p x then Some 0 else (case findIndex p xs of None \<Rightarrow> None | Some i \<Rightarrow> Some (Suc i)))"

text \<open>The body of \<open>CERT_IN_PROPERTIES.forEach\<close>, for one key.\<close>

definition mergeProperty :: "propertySet \<Rightarrow> (string \<times> string) list \<Rightarrow> string \<Rightarrow> (string \<times> string) list" where
  "mergeProperty fetched newProps key =
     (case propValue fetched key of
        None \<Rightarrow> newProps
      | Some val \<Rightarrow>
          if val \<noteq> [] \<and> val \<noteq> ''NA'' then
            (case findIndex (\<lambda>p. fst p = key) newProps of
               Some existingIdx \<Rightarrow> newProps[existingIdx := (key, val)]
             | None \<Rightarrow> newProps @ [(key, val)])
          else newProps)"

definition mergeComponent :: "'a component_scheme \<Rightarrow> propertySet \<Rightarrow> 'a component_scheme" where
  "mergeComponent c fetched =
     c\<lparr>c_properties :=
         Some (foldl (mergeProperty fetched)
                 (case c_properties c of None \<Rightarrow> [] | Some ps \<Rightarrow> ps) CERT_IN_PROPERTIES)\<rparr>"

text \<open>\<open>updatedComponents.map((c, idx) => ...)\<close> over \<open>results\<close>, which has one entry per
  component.\<close>

definition mergeAll :: "'a component_scheme list \<Rightarrow> propertySet list \<Rightarrow> 'a component_scheme list" where
  "mergeAll updatedComponents results =
     map (\<lambda>(c, fetched). mergeComponent c fetched) (zip updatedComponents results)"

section \<open>Notions used in the statements\<close>

text \<open>Two values have equal fields when they are the same once the members of every
  object, at every depth, are put in key order: the insertion order of keys is
  forgotten, everything else is kept.\<close>

fun canon :: "jsval \<Rightarrow> jsval" where
  "canon (JArr xs) = JArr (map canon xs)"
| "canon (JObj ms) = JObj (sort_key fst (map (\<lambda>(k, v). (k, canon v)) ms))"
| "canon v = v"

definition fieldEqual :: "jsval \<Rightarrow> jsval \<Rightarrow> bool" where
  "fieldEqual a b = (canon a = canon b)"

text \<open>The fields that decide the enrichment of a component: its name, version, package
  URL, group and external references, and the vulnerability records of the document that
  \<open>generateComponentChecksum\<close> selects for it (those whose \<open>affects\<close> list names its
  reference id). Two components, each with its document's vulnerability list, have equal
  relevant fields when these have equal fields; every other member of the components,
  and every vulnerability that affects neither, is free to differ.\<close>

definition relevantFields :: "string list" where
  "relevantFields = [''name'', ''version'', ''purl'', ''group'', ''externalReferences'']"

definition relevantEqual :: "jsval \<Rightarrow> jsval list \<Rightarrow> jsval \<Rightarrow> jsval list \<Rightarrow> bool" where
  "relevantEqual c1 vs1 c2 vs2 =
     ((\<forall>k \<in> set relevantFields. rel_sum (=) fieldEqual (js_get c1 k) (js_get c2 k))
      \<and> rel_sum (=) (list_all2 fieldEqual)
            (filterE (affectsComponent c1) vs1) (filterE (affectsComponent c2) vs2))"

text \<open>The derived value of a property is present and is not the sentinel \<open>NA\<close>.\<close>

definition overwrites :: "propertySet \<Rightarrow> string \<Rightarrow> bool" where
  "overwrites fetched key =
     (case propValue fetched key of None \<Rightarrow> False | Some val \<Rightarrow> val \<noteq> [] \<and> val \<noteq> ''NA'')"

text \<open>The vulnerability aggregate reports vulnerabilities.\<close>

definition reportsVulnerabilities :: "vulnData option \<Rightarrow> bool" where
  "reportsVulnerabilities vulnData =
     (case vulnData of None \<Rightarrow> False | Some vd \<Rightarrow> vd_hasVulnerabilities vd)"

text \<open>The call of \<open>fetchComponentData\<close> was fulfilled, and the property set it returned
  is what the cache now holds under the fingerprint of the component.\<close>

definition resultCached ::
  "component \<Rightarrow> vulnerability list \<Rightarrow> js_error + propertySet \<times> cval cacheService \<Rightarrow> bool" where
  "resultCached c vs r =
     (case r of
        Inl e \<Rightarrow> False
      | Inr (props, s') \<Rightarrow> getComponentResult s' c vs = Inr (Some (Plain (VProps props))))"

section \<open>Example inputs\<close>

definition emptyCache :: "string cacheService" where
  "emptyCache = \<lparr>cache = [], sessionStartTime = 0, storage = None, quotaExceeded = False\<rparr>"


definition ex_lodash :: component where
  "ex_lodash =
     \<lparr>c_name = Some ''lodash'', c_version = Some ''4.17.20'',
      c_purl = None, c_group = None,
      c_bom_ref = Some ''lodash@4.17.20'', c_bomRef = None,
      c_externalReferences =
        Some [\<lparr>ref_type = Some ''vcs'', ref_url = Some ''https://github.com/lodash/lodash''\<rparr>],
      c_properties = Some [(''Patch Status'', ''Reviewed by hand''), (''Release Date'', ''2020-08-13''),
                           (''Owner'', ''web team'')]\<rparr>"

definition ex_info :: pkgInfo where
  "ex_info = \<lparr>pi_ecosystem = Some ''npm'', pi_name = Some ''lodash'', pi_group = None,
              pi_version = Some ''4.17.20''\<rparr>"

definition ex_info_noversion :: pkgInfo where
  "ex_info_noversion = \<lparr>pi_ecosystem = Some ''npm'', pi_name = Some ''lodash'', pi_group = None,
              pi_version = None\<rparr>"

definition ex_pkg :: packageData where
  "ex_pkg = \<lparr>pd_releaseDate = Some ''2021-02-20'', pd_license = Some ''MIT'',
             pd_latestVersion = Some ''4.17.21'', pd_author = None, pd_description = None\<rparr>"

definition ex_vuln_fixed :: vulnData where
  "ex_vuln_fixed = \<lparr>vd_hasVulnerabilities = True, vd_totalVulns = Some 1,
     vd_fixedVersions = Some [''4.17.21''], vd_maxCvssScore = None, vd_severity = None\<rparr>"

definition ex_vuln_nofix :: vulnData where
  "ex_vuln_nofix = \<lparr>vd_hasVulnerabilities = True, vd_totalVulns = Some 2,
     vd_fixedVersions = Some [], vd_maxCvssScore = None, vd_severity = None\<rparr>"

definition ex_vuln_none :: vulnData where
  "ex_vuln_none = \<lparr>vd_hasVulnerabilities = False, vd_totalVulns = None,
     vd_fixedVersions = None, vd_maxCvssScore = None, vd_severity = None\<rparr>"

definition ex_gh :: githubData where
  "ex_gh = \<lparr>gh_releaseDate = None, gh_license = Some ''MIT'', gh_stars = Some 58000\<rparr>"

definition ex_fetched :: propertySet where
  "ex_fetched =
     [(''Patch Status'', Some ''Up to date''), (''Release Date'', Some ''NA''),
      (''Criticality'', None), (''Archive Property'', Some ''No'')]"

definition ex_json_a :: jsval where
  "ex_json_a =
     JObj [(''name'', JStr ''lodash''), (''version'', JStr ''4.17.20''),
           (''bom-ref'', JStr ''lodash@4.17.20''),
           (''externalReferences'',
              JArr [JObj [(''type'', JStr ''vcs''),
                          (''url'', JStr ''https://github.com/lodash/lodash'')]])]"

definition ex_json_a_reordered :: jsval where
  "ex_json_a_reordered =
     JObj [(''externalReferences'',
              JArr [JObj [(''url'', JStr ''https://github.com/lodash/lodash''),
                          (''type'', JStr ''vcs'')]]),
           (''bom-ref'', JStr ''lodash@4.17.20''), (''version'', JStr ''4.17.20''),
           (''name'', JStr ''lodash'')]"

definition ex_json_vuln_low :: jsval where
  "ex_json_vuln_low =
     JObj [(''id'', JStr ''CVE-2021-23337''),
           (''affects'', JArr [JObj [(''ref'', JStr ''lodash@4.17.20'')]]),
           (''ratings'', JArr [JObj [(''severity'', JStr ''low'')]])]"


definition ex_services :: "(js_error + vulnData option) \<Rightarrow> (js_error + githubData option) \<Rightarrow> services" where
  "ex_services vulnResult ghResult =
     \<lparr>extractPackageInfo = (\<lambda>c. Some ex_info),
      fetchNpmData = (\<lambda>n. Inr (Some ex_pkg)),
      fetchPyPiData = (\<lambda>n. Inr None),
      fetchMavenData = (\<lambda>g n. Inr None),
      fetchVulnerabilityData = (\<lambda>p. vulnResult),
      determineCriticality = (\<lambda>v. None),
      fetchGitHubData = (\<lambda>u. ghResult),
      fetchEol = (\<lambda>c p. Inr None)\<rparr>"

definition ex_services_vuln_down :: services where
  "ex_services_vuln_down = ex_services (Inl (Rejected ''osv.dev unreachable'')) (Inr (Some ex_gh))"

definition ex_services_fixed :: services where
  "ex_services_fixed = ex_services (Inr (Some ex_vuln_fixed)) (Inr (Some ex_gh))"

definition ex_services_nofix :: services where
  "ex_services_nofix = ex_services (Inr (Some ex_vuln_nofix)) (Inr None)"

definition ex_empty :: "cval cacheService" where
  "ex_empty = \<lparr>cache = [], sessionStartTime = 0, storage = None, quotaExceeded = False\<rparr>"

definition ex_warm :: "cval cacheService" where
  "ex_warm = \<lparr>cache = [(''npm:lodash'', Plain (VPkg ex_pkg)),
                        (''vuln:npm:lodash'', Plain (VVuln ex_vuln_fixed)),
                        (''github:lodash/lodash'', Plain (VGh ex_gh))],
              sessionStartTime = 0, storage = None, quotaExceeded = False\<rparr>"

definition ex_json_b :: jsval where
  "ex_json_b =
     JObj [(''name'', JStr ''lodash''), (''version'', JStr ''4.17.20''),
           (''bom-ref'', JStr ''lodash@4.17.20''),
           (''externalReferences'',
              JArr [JObj [(''type'', JStr ''website''),
                          (''url'', JStr ''https://example.org/mirror/lodash'')]])]"

definition ex_json_vuln_critical :: jsval where
  "ex_json_vuln_critical =
     JObj [(''id'', JStr ''CVE-2021-23337''),
           (''affects'', JArr [JObj [(''ref'', JStr ''lodash@4.17.20'')]]),
           (''ratings'', JArr [JObj [(''severity'', JStr ''critical'')]])]"

definition ex_sbom_a :: jsval where
  "ex_sbom_a =
     JObj [(''bomFormat'', JStr ''CycloneDX''),
           (''metadata'', JObj [(''timestamp'', JStr ''2024-01-01T00:00:00Z'')]),
           (''components'', JArr [ex_json_a]),
           (''vulnerabilities'', JArr [ex_json_vuln_low])]"

definition ex_sbom_b :: jsval where
  "ex_sbom_b =
     JObj [(''bomFormat'', JStr ''CycloneDX''),
           (''metadata'', JObj [(''timestamp'', JStr ''2025-06-30T12:00:00Z''),
                                (''version'', JNum ''2'')]),
           (''components'',
              JArr [JObj [(''name'', JStr ''express''), (''version'', JStr ''4.18.2''),
                          (''purl'', JStr ''pkg:npm/express@4.18.2'')]]),
           (''vulnerabilities'', JArr [ex_json_vuln_critical])]"




definition ex_services_noinfo :: services where
  "ex_services_noinfo =
     \<lparr>extractPackageInfo = (\<lambda>c. None),
      fetchNpmData = (\<lambda>n. Inr None),
      fetchPyPiData = (\<lambda>n. Inr None),
      fetchMavenData = (\<lambda>g n. Inr None),
      fetchVulnerabilityData = (\<lambda>p. Inr None),
      determineCriticality = (\<lambda>v. None),
      fetchGitHubData = (\<lambda>u. Inr (Some ex_gh)),
      fetchEol = (\<lambda>c p. Inr None)\<rparr>"

definition ex_repo_cached :: "cval cacheService" where
  "ex_repo_cached = \<lparr>cache = [(''github:lodash/lodash'', Plain (VGh ex_gh))],
              sessionStartTime = 0, storage = None, quotaExceeded = False\<rparr>"

section \<open>The expiring entries of the cache\<close>

lemma map_of_update_same: "map_of (AList.update k v al) k = Some v"
  by (simp add: update_conv')

lemma cache_saveToStorage: "cache (saveToStorage now s) = cache s"
  by (simp add: saveToStorage_def)

lemma length_update_alist:
  "length (AList.update k v al) = (if k \<in> fst ` set al then length al else Suc (length al))"
  by (induction al) auto

text \<open>
  C6. After \<open>setWithTTL(k, v, ttl)\<close> at time \<open>t0\<close> with \<open>ttl > 0\<close>, a \<open>getWithTTL(k)\<close> at a time
  \<open>t1\<close> more than \<open>ttl\<close> milliseconds later returns \<open>null\<close> and leaves the cache without the
  entry of \<open>k\<close>; at a time within the \<open>ttl\<close> it returns \<open>v\<close> and changes nothing. After
  \<open>setWithTTL(k, v, 0)\<close> it returns \<open>v\<close> at any time.
\<close>

theorem getWithTTL_after_setWithTTL:
  "(0 < ttl \<and> t1 - t0 > ttl \<longrightarrow>
      fst (getWithTTL t1 k (setWithTTL t0 k v ttl s)) = None
      \<and> cache (snd (getWithTTL t1 k (setWithTTL t0 k v ttl s))) = AList.delete k (cache s)
      \<and> \<not> has (snd (getWithTTL t1 k (setWithTTL t0 k v ttl s))) k)
   \<and> (0 < ttl \<and> t1 - t0 \<le> ttl \<longrightarrow>
      getWithTTL t1 k (setWithTTL t0 k v ttl s) = (Some v, setWithTTL t0 k v ttl s))
   \<and> getWithTTL t1 k (setWithTTL t0 k v 0 s) = (Some v, setWithTTL t0 k v 0 s)"
  by (simp add: getWithTTL_def setWithTTL_def cache_saveToStorage map_of_update_same
      delete_update_same has_def delete_conv')

theorem getWithTTL_after_setWithTTL_witness:
  "getWithTTL 11 ''k'' (setWithTTL 0 ''k'' ''v'' 10 emptyCache)
     = (None, saveToStorage 11 (emptyCache\<lparr>cache := []\<rparr>))
   \<and> fst (getWithTTL 10 ''k'' (setWithTTL 0 ''k'' ''v'' 10 emptyCache)) = Some ''v''
   \<and> fst (getWithTTL 1000000 ''k'' (setWithTTL 0 ''k'' ''v'' 0 emptyCache)) = Some ''v''"
  using getWithTTL_after_setWithTTL [of 10 11 0 "''k''" "''v''" emptyCache]
    getWithTTL_after_setWithTTL [of 10 10 0 "''k''" "''v''" emptyCache]
    getWithTTL_after_setWithTTL [of 0 1000000 0 "''k''" "''v''" emptyCache]
  by (simp add: getWithTTL_def setWithTTL_def emptyCache_def saveToStorage_def)

text \<open>
  C10. For an entry stored with \<open>setWithTTL\<close>, at any later time and so also once its
  \<open>ttl\<close> has elapsed: \<open>has(key)\<close> is true, \<open>get(key)\<close> returns the wrapper
  \<open>{value, timestamp, ttl}\<close>, and \<open>getStats\<close> lists the key and counts the entry. Once the
  \<open>ttl\<close> has elapsed, \<open>getWithTTL\<close> returns \<open>null\<close> and removes the entry.
\<close>

theorem plain_reads_ignore_ttl:
  "has (setWithTTL t0 k v ttl s) k
   \<and> get (setWithTTL t0 k v ttl s) k = Some (Timed v t0 ttl)
   \<and> k \<in> set (stats_keys (getStats t1 (setWithTTL t0 k v ttl s)))
   \<and> stats_size (getStats t1 (setWithTTL t0 k v ttl s))
       = (if has s k then stats_size (getStats t1 s) else stats_size (getStats t1 s) + 1)
   \<and> (0 < ttl \<and> t1 - t0 > ttl \<longrightarrow>
        fst (getWithTTL t1 k (setWithTTL t0 k v ttl s)) = None
        \<and> \<not> has (snd (getWithTTL t1 k (setWithTTL t0 k v ttl s))) k
        \<and> k \<notin> set (stats_keys (getStats t1 (snd (getWithTTL t1 k (setWithTTL t0 k v ttl s))))))"
  by (simp add: getWithTTL_def setWithTTL_def cache_saveToStorage map_of_update_same
      delete_update_same has_def delete_conv' get_def getStats_def length_update_alist
      map_of_eq_None_iff dom_update delete_notin_dom)

theorem plain_reads_ignore_ttl_witness:
  "has (setWithTTL 0 ''k'' ''v'' 10 emptyCache) ''k''
   \<and> get (setWithTTL 0 ''k'' ''v'' 10 emptyCache) ''k'' = Some (Timed ''v'' 0 10)
   \<and> stats_size (getStats 99 (setWithTTL 0 ''k'' ''v'' 10 emptyCache)) = 1
   \<and> stats_keys (getStats 99 (setWithTTL 0 ''k'' ''v'' 10 emptyCache)) = [''k'']
   \<and> fst (getWithTTL 99 ''k'' (setWithTTL 0 ''k'' ''v'' 10 emptyCache)) = None
   \<and> \<not> has (snd (getWithTTL 99 ''k'' (setWithTTL 0 ''k'' ''v'' 10 emptyCache))) ''k''"
  using plain_reads_ignore_ttl [of 0 "''k''" "''v''" 10 emptyCache 99]
  by (simp add: getStats_def setWithTTL_def emptyCache_def saveToStorage_def has_def)

section \<open>Loading the persisted snapshot\<close>




section \<open>The document-level merge\<close>

lemma findIndex_update:
  "(case findIndex (\<lambda>p. fst p = key) ps of
      Some i \<Rightarrow> ps[i := (key, val)]
    | None \<Rightarrow> ps @ [(key, val)]) = AList.update key val ps"
  by (induction ps) (auto split: option.splits)

lemma mergeProperty_alt:
  "mergeProperty fetched ps key =
     (if overwrites fetched key then AList.update key (the (propValue fetched key)) ps else ps)"
  by (auto simp: mergeProperty_def overwrites_def findIndex_update split: option.splits)

lemma filter_update_other:
  "name \<noteq> key \<Longrightarrow>
     filter (\<lambda>p. fst p = name) (AList.update key val ps) = filter (\<lambda>p. fst p = name) ps"
  by (induction ps) auto

lemma foldl_merge_filter:
  "\<not> (name \<in> set keys \<and> overwrites fetched name) \<Longrightarrow>
     filter (\<lambda>p. fst p = name) (foldl (mergeProperty fetched) ps keys)
       = filter (\<lambda>p. fst p = name) ps"
proof (induction keys arbitrary: ps)
  case Nil
  then show ?case by simp
next
  case (Cons k ks)
  have step: "filter (\<lambda>p. fst p = name) (mergeProperty fetched ps k) = filter (\<lambda>p. fst p = name) ps"
    using Cons.prems by (cases "k = name") (auto simp: mergeProperty_alt filter_update_other)
  from Cons.prems have "\<not> (name \<in> set ks \<and> overwrites fetched name)" by auto
  from Cons.IH [OF this, of "mergeProperty fetched ps k"] step show ?case by simp
qed

lemma foldl_merge_lookup:
  "name \<in> set keys \<Longrightarrow> overwrites fetched name \<Longrightarrow>
     map_of (foldl (mergeProperty fetched) ps keys) name = propValue fetched name"
proof (induction keys arbitrary: ps rule: rev_induct)
  case Nil
  then show ?case by simp
next
  case (snoc k ks)
  show ?case
  proof (cases "k = name")
    case True
    with snoc.prems show ?thesis
      by (auto simp: mergeProperty_alt update_conv' overwrites_def split: option.splits)
  next
    case False
    with snoc.prems have "name \<in> set ks" by auto
    from snoc.IH [OF this snoc.prems(2)] False show ?thesis
      by (auto simp: mergeProperty_alt update_conv')
  qed
qed

lemma map_of_filter_fst:
  "map_of (filter (\<lambda>p. fst p = name) ps) name = map_of ps name"
  by (induction ps) auto

lemma mergeAll_nth:
  "length results = length comps \<Longrightarrow> i < length comps \<Longrightarrow>
     mergeAll comps results ! i = mergeComponent (comps ! i) (results ! i)"
  by (simp add: mergeAll_def)

text \<open>
  C9. The merge gives the component at each index the merge of its own derived property
  set. For a property name whose derived value is absent, empty or \<open>NA\<close> (and for every
  name that is not a CERT-In name), the entries of that name in the properties list, and
  so the value stored under it, are what they were; for a CERT-In name whose derived
  value is present and not \<open>NA\<close>, the value stored under it is the derived one. Nothing
  but the properties list of the component changes.
\<close>

theorem merge_overwrites_only_derived:
  fixes c :: "'a component_scheme"
  shows "(\<forall>name. \<not> (name \<in> set CERT_IN_PROPERTIES \<and> overwrites fetched name) \<longrightarrow>
        filter (\<lambda>p. fst p = name)
            (case c_properties (mergeComponent c fetched) of None \<Rightarrow> [] | Some ps \<Rightarrow> ps)
          = filter (\<lambda>p. fst p = name) (case c_properties c of None \<Rightarrow> [] | Some ps \<Rightarrow> ps)
        \<and> map_of (case c_properties (mergeComponent c fetched) of None \<Rightarrow> [] | Some ps \<Rightarrow> ps) name
          = map_of (case c_properties c of None \<Rightarrow> [] | Some ps \<Rightarrow> ps) name)
   \<and> (\<forall>name. name \<in> set CERT_IN_PROPERTIES \<and> overwrites fetched name \<longrightarrow>
        map_of (case c_properties (mergeComponent c fetched) of None \<Rightarrow> [] | Some ps \<Rightarrow> ps) name
          = propValue fetched name)
   \<and> mergeComponent c fetched = c\<lparr>c_properties := c_properties (mergeComponent c fetched)\<rparr>
   \<and> (length results = length (comps :: 'a component_scheme list) \<and> i < length comps \<longrightarrow>
        mergeAll comps results ! i = mergeComponent (comps ! i) (results ! i))"
proof -
  let ?old = "case c_properties c of None \<Rightarrow> [] | Some ps \<Rightarrow> ps"
  let ?new = "foldl (mergeProperty fetched) ?old CERT_IN_PROPERTIES"
  have new: "c_properties (mergeComponent c fetched) = Some ?new"
    by (simp add: mergeComponent_def)
  have a: "filter (\<lambda>p. fst p = name) ?new = filter (\<lambda>p. fst p = name) ?old"
    if "\<not> (name \<in> set CERT_IN_PROPERTIES \<and> overwrites fetched name)" for name
    using that by (rule foldl_merge_filter)
  have b: "map_of ?new name = map_of ?old name"
    if "\<not> (name \<in> set CERT_IN_PROPERTIES \<and> overwrites fetched name)" for name
    using a [OF that] map_of_filter_fst [of name ?new] map_of_filter_fst [of name ?old] by simp
  have c: "map_of ?new name = propValue fetched name"
    if "name \<in> set CERT_IN_PROPERTIES \<and> overwrites fetched name" for name
    using that foldl_merge_lookup by blast
  have d: "mergeComponent c fetched = c\<lparr>c_properties := c_properties (mergeComponent c fetched)\<rparr>"
    by (simp add: mergeComponent_def)
  from a b c d mergeAll_nth [of results comps i] show ?thesis unfolding new by simp
qed

lemma ex_merge_eval:
  "c_properties (mergeComponent ex_lodash ex_fetched)
     = Some [(''Patch Status'', ''Up to date''), (''Release Date'', ''2020-08-13''),
             (''Owner'', ''web team''), (''Archive Property'', ''No'')]"
  by (simp add: mergeComponent_def mergeProperty_def CERT_IN_PROPERTIES_def ex_lodash_def
      ex_fetched_def propValue_def)

theorem merge_overwrites_only_derived_witness:
  "map_of (case c_properties (mergeComponent ex_lodash ex_fetched) of None \<Rightarrow> [] | Some ps \<Rightarrow> ps) ''Release Date''
     = Some ''2020-08-13''
   \<and> map_of (case c_properties (mergeComponent ex_lodash ex_fetched) of None \<Rightarrow> [] | Some ps \<Rightarrow> ps) ''Patch Status''
     = Some ''Up to date''
   \<and> c_properties (mergeAll [ex_lodash] [ex_fetched] ! 0)
     = Some [(''Patch Status'', ''Up to date''), (''Release Date'', ''2020-08-13''),
             (''Owner'', ''web team''), (''Archive Property'', ''No'')]
   \<and> mergeAll [ex_lodash] [ex_fetched] ! 0
     = ex_lodash\<lparr>c_properties := c_properties (mergeComponent ex_lodash ex_fetched)\<rparr>"
proof -
  note T = merge_overwrites_only_derived [of ex_fetched ex_lodash "[ex_fetched]" "[ex_lodash]" 0]
  have o1: "''Patch Status'' \<in> set CERT_IN_PROPERTIES \<and> overwrites ex_fetched ''Patch Status''"
    by (simp add: overwrites_def propValue_def ex_fetched_def CERT_IN_PROPERTIES_def)
  have o2: "\<not> (''Release Date'' \<in> set CERT_IN_PROPERTIES \<and> overwrites ex_fetched ''Release Date'')"
    by (simp add: overwrites_def propValue_def ex_fetched_def)
  have kept: "map_of (case c_properties (mergeComponent ex_lodash ex_fetched) of None \<Rightarrow> [] | Some ps \<Rightarrow> ps) ''Release Date''
      = map_of (case c_properties ex_lodash of None \<Rightarrow> [] | Some ps \<Rightarrow> ps) ''Release Date''"
    using T o2 by blast
  have replaced: "map_of (case c_properties (mergeComponent ex_lodash ex_fetched) of None \<Rightarrow> [] | Some ps \<Rightarrow> ps) ''Patch Status''
      = propValue ex_fetched ''Patch Status''"
    using T o1 by blast
  have frame: "mergeComponent ex_lodash ex_fetched
      = ex_lodash\<lparr>c_properties := c_properties (mergeComponent ex_lodash ex_fetched)\<rparr>"
    using T by blast
  have nth: "mergeAll [ex_lodash] [ex_fetched] ! 0 = mergeComponent ex_lodash ex_fetched"
    using T by simp
  have v1: "map_of (case c_properties ex_lodash of None \<Rightarrow> [] | Some ps \<Rightarrow> ps) ''Release Date'' = Some ''2020-08-13''"
    by (simp add: ex_lodash_def)
  have v2: "propValue ex_fetched ''Patch Status'' = Some ''Up to date''"
    by (simp add: propValue_def ex_fetched_def)
  show ?thesis
    using kept replaced frame nth v1 v2 ex_merge_eval by simp
qed

section \<open>Patch status\<close>

text \<open>
  C4 (as amended). \<open>computePatchStatus\<close> returns \<open>Update available (>= v)\<close> when the aggregate
  reports vulnerabilities and \<open>v\<close> is the first of its fixed versions;
  \<open>Update available (>= NA)\<close> when it reports vulnerabilities and the list of fixed versions
  is empty or missing; \<open>Update available (latest l)\<close> when it reports none, the latest
  version \<open>l\<close> of the package metadata and the installed version are both present and not
  empty, and they differ; \<open>Up to date\<close> when it reports none and the latest or the
  installed version is missing or empty, or the two are equal.
\<close>

theorem computePatchStatus_cases:
  "(vulnData = Some vd \<and> vd_hasVulnerabilities vd \<and> vd_fixedVersions vd = Some (v # vs) \<longrightarrow>
      computePatchStatus vulnData pkgInfo pkgData = ''Update available (>= '' @ v @ '')'')
   \<and> (vulnData = Some vd \<and> vd_hasVulnerabilities vd
        \<and> (vd_fixedVersions vd = Some [] \<or> vd_fixedVersions vd = None) \<longrightarrow>
      computePatchStatus vulnData pkgInfo pkgData = ''Update available (>= NA)'')
   \<and> (\<not> reportsVulnerabilities vulnData
        \<and> Option.bind pkgData pd_latestVersion = Some latest \<and> latest \<noteq> []
        \<and> Option.bind pkgInfo pi_version = Some installed \<and> installed \<noteq> []
        \<and> latest \<noteq> installed \<longrightarrow>
      computePatchStatus vulnData pkgInfo pkgData = ''Update available (latest '' @ latest @ '')'')
   \<and> (\<not> reportsVulnerabilities vulnData
        \<and> (\<not> truthyStr (Option.bind pkgData pd_latestVersion)
           \<or> \<not> truthyStr (Option.bind pkgInfo pi_version)
           \<or> Option.bind pkgData pd_latestVersion = Option.bind pkgInfo pi_version) \<longrightarrow>
      computePatchStatus vulnData pkgInfo pkgData = ''Up to date'')"
  by (auto simp: computePatchStatus_def reportsVulnerabilities_def truthyStr_def
      split: option.splits list.splits)

theorem computePatchStatus_cases_witness:
  "computePatchStatus (Some ex_vuln_fixed) (Some ex_info) (Some ex_pkg) = ''Update available (>= 4.17.21)''
   \<and> computePatchStatus (Some ex_vuln_nofix) (Some ex_info) (Some ex_pkg) = ''Update available (>= NA)''
   \<and> computePatchStatus (Some ex_vuln_none) (Some ex_info) (Some ex_pkg) = ''Update available (latest 4.17.21)''
   \<and> computePatchStatus (Some ex_vuln_none) (Some ex_info) None = ''Up to date''"
  using computePatchStatus_cases [of "Some ex_vuln_fixed" ex_vuln_fixed "''4.17.21''" "[]" "Some ex_info" "Some ex_pkg"]
    computePatchStatus_cases [of "Some ex_vuln_nofix" ex_vuln_nofix _ _ "Some ex_info" "Some ex_pkg"]
    computePatchStatus_cases [of "Some ex_vuln_none" _ _ _ "Some ex_info" "Some ex_pkg" "''4.17.21''" "''4.17.20''"]
    computePatchStatus_cases [of "Some ex_vuln_none" _ _ _ "Some ex_info" None]
  by (simp add: ex_vuln_fixed_def ex_vuln_nofix_def ex_vuln_none_def ex_info_def ex_pkg_def
      reportsVulnerabilities_def truthyStr_def)

text \<open>
  C4 as stated fails where the installed version is not known: no vulnerabilities are
  reported, the package metadata names the latest version \<open>4.17.21\<close>, which differs from
  the missing installed version, and the result is \<open>Up to date\<close>.
\<close>

theorem computePatchStatus_counterexample:
  "\<not> reportsVulnerabilities (Some ex_vuln_none)
   \<and> Option.bind (Some ex_pkg) pd_latestVersion = Some ''4.17.21''
   \<and> Option.bind (Some ex_pkg) pd_latestVersion \<noteq> Option.bind (Some ex_info_noversion) pi_version
   \<and> computePatchStatus (Some ex_vuln_none) (Some ex_info_noversion) (Some ex_pkg) = ''Up to date''"
  by (simp add: computePatchStatus_def reportsVulnerabilities_def ex_vuln_none_def ex_pkg_def
      ex_info_noversion_def)

section \<open>Fingerprints and the order of keys\<close>

lemma map_of_insort_key:
  "map_of (insort_key fst (k, v) xs) k' = (if k' = k then Some v else map_of xs k')"
  by (induction xs) auto

lemma map_of_sort_key: "map_of (sort_key fst xs) k = map_of xs k"
proof (induction xs)
  case Nil
  then show ?case by simp
next
  case (Cons x xs)
  obtain a b where x: "x = (a, b)" by (cases x)
  show ?case using Cons by (simp add: x map_of_insort_key)
qed

lemma map_of_map_snd:
  "map_of (map (\<lambda>(k, v). (k, f v)) ms) k = map_option f (map_of ms k)"
  by (induction ms) auto

lemma map_option_map_of_cong:
  "(\<And>a b. (a, b) \<in> set ms \<Longrightarrow> f b = g b) \<Longrightarrow>
     map_option f (map_of ms k) = map_option g (map_of ms k)"
  by (cases "map_of ms k") (auto dest: map_of_SomeD)

lemma serializeJSON_canon: "serializeJSON K (canon v) = serializeJSON K v"
proof (induction v)
  case (JArr xs)
  then show ?case by (simp add: comp_def cong: map_cong)
next
  case (JObj ms)
  have ih: "\<And>a b. (a, b) \<in> set ms \<Longrightarrow> serializeJSON K (canon b) = serializeJSON K b"
    using JObj by fastforce
  have "map_of (map (\<lambda>(k, v). (k, serializeJSON K v)) (sort_key fst (map (\<lambda>(k, v). (k, canon v)) ms))) k
      = map_of (map (\<lambda>(k, v). (k, serializeJSON K v)) ms) k" for k
    using map_option_map_of_cong [of ms "\<lambda>b. serializeJSON K (canon b)" "serializeJSON K" k] ih
    by (simp add: map_of_map_snd map_of_sort_key option.map_comp comp_def)
  then show ?case by simp
qed simp_all

lemma js_get_canon: "js_get (canon v) k = map_sum id canon (js_get v k)"
  by (cases v) (auto simp: map_of_sort_key map_of_map_snd split: option.splits)

lemma truthy_canon: "truthy (canon v) = truthy v"
  by (cases v) auto

lemma strict_eq_canon: "strict_eq (canon a) (canon b) = strict_eq a b"
  by (cases a; cases b) auto

lemma componentRef_canon: "componentRef (canon c) = map_sum id canon (componentRef c)"
  by (auto simp: componentRef_def js_get_canon truthy_canon split: sum.splits)

lemma someAffects_canon: "someAffects (canon c) (map canon as) = someAffects c as"
  by (induction as) (auto simp: js_get_canon componentRef_canon strict_eq_canon split: sum.splits)

lemma affectsComponent_canon: "affectsComponent (canon c) (canon v) = affectsComponent c v"
proof (cases "js_get v ''affects''")
  case (Inl e)
  then show ?thesis by (simp add: affectsComponent_def js_get_canon)
next
  case (Inr affects)
  then show ?thesis
    by (cases affects) (simp_all add: affectsComponent_def js_get_canon someAffects_canon)
qed

lemma filterE_canon:
  "filterE (affectsComponent (canon c)) (map canon vs)
     = map_sum id (map canon) (filterE (affectsComponent c) vs)"
  by (induction vs) (auto simp: affectsComponent_canon split: sum.splits)

lemma serializeJSON_members_canon:
  "serializeJSON K (JObj (map (\<lambda>(k, v). (k, canon v)) ms)) = serializeJSON K (JObj ms)"
proof -
  have "map_of (map (\<lambda>(k, v). (k, serializeJSON K v)) (map (\<lambda>(k, v). (k, canon v)) ms)) k
      = map_of (map (\<lambda>(k, v). (k, serializeJSON K v)) ms) k" for k
    by (induction ms) (auto simp: serializeJSON_canon)
  then show ?thesis by simp
qed

lemma stringifySortedKeys_canon:
  "stringifySortedKeys (map (\<lambda>(k, v). (k, canon v)) ms) = stringifySortedKeys ms"
proof -
  have "map fst (map (\<lambda>(k, v). (k, canon v)) ms) = map fst ms"
    by (induction ms) auto
  then show ?thesis
    unfolding stringifySortedKeys_def by (simp only: serializeJSON_members_canon)
qed

lemma componentData_canon:
  "componentData (canon c) (map canon vs)
     = map_sum id (map (\<lambda>(k, v). (k, canon v))) (componentData c vs)"
  by (auto simp: componentData_def js_get_canon filterE_canon split: sum.splits)

lemma generateComponentChecksum_canon:
  "generateComponentChecksum (canon c) (map canon vs) = generateComponentChecksum c vs"
  by (auto simp: generateComponentChecksum_def componentData_canon stringifySortedKeys_canon
      split: sum.splits)

lemma list_all2_fieldEqual: "list_all2 fieldEqual xs ys \<longleftrightarrow> map canon xs = map canon ys"
proof
  assume "list_all2 fieldEqual xs ys"
  then show "map canon xs = map canon ys"
    by (induction rule: list_all2_induct) (auto simp: fieldEqual_def)
next
  assume "map canon xs = map canon ys"
  then show "list_all2 fieldEqual xs ys"
  proof (induction xs arbitrary: ys)
    case Nil
    then show ?case by simp
  next
    case (Cons x xs)
    then show ?case by (cases ys) (auto simp: fieldEqual_def)
  qed
qed





lemma rel_sum_InrD:
  "rel_sum (=) R x y \<Longrightarrow> x = Inr a \<Longrightarrow> \<exists>b. y = Inr b \<and> R a b"
  by (cases y) auto

lemma rel_sum_InlD:
  "rel_sum (=) R x y \<Longrightarrow> x = Inl e \<Longrightarrow> y = Inl e"
  by (cases y) auto


text \<open>Components with equal fields throughout, with vulnerability lists of equal fields,
  have equal relevant fields.\<close>

lemma fieldEqual_relevantEqual:
  assumes "fieldEqual c1 c2" and "list_all2 fieldEqual vs1 vs2"
  shows "relevantEqual c1 vs1 c2 vs2"
proof -
  have c: "canon c1 = canon c2" using assms(1) by (simp add: fieldEqual_def)
  have v: "map canon vs1 = map canon vs2" using assms(2) by (simp add: list_all2_fieldEqual)
  have "map_sum id canon (js_get c1 k) = map_sum id canon (js_get c2 k)" for k
    using js_get_canon [of c1 k] js_get_canon [of c2 k] c by simp
  then have a: "rel_sum (=) fieldEqual (js_get c1 k) (js_get c2 k)" for k
    by (cases "js_get c1 k"; cases "js_get c2 k") (auto simp: fieldEqual_def dest: meta_spec [of _ k])
  have "map_sum id (map canon) (filterE (affectsComponent c1) vs1)
      = map_sum id (map canon) (filterE (affectsComponent c2) vs2)"
    using filterE_canon [of c1 vs1] filterE_canon [of c2 vs2] c v by simp
  then have b: "rel_sum (=) (list_all2 fieldEqual)
      (filterE (affectsComponent c1) vs1) (filterE (affectsComponent c2) vs2)"
    by (cases "filterE (affectsComponent c1) vs1"; cases "filterE (affectsComponent c2) vs2")
       (auto simp: list_all2_fieldEqual)
  from a b show ?thesis by (simp add: relevantEqual_def)
qed

lemma js_get_fieldEqual:
  assumes "fieldEqual a b"
  shows "rel_sum (=) fieldEqual (js_get a k) (js_get b k)"
proof -
  have "map_sum id canon (js_get a k) = map_sum id canon (js_get b k)"
    using js_get_canon [of a k] js_get_canon [of b k] assms by (simp add: fieldEqual_def)
  then show ?thesis
    by (cases "js_get a k"; cases "js_get b k") (auto simp: fieldEqual_def)
qed

lemma strict_eq_fieldEqual:
  "fieldEqual r1 r2 \<Longrightarrow> fieldEqual x1 x2 \<Longrightarrow> strict_eq r1 x1 = strict_eq r2 x2"
  using strict_eq_canon [of r1 x1] strict_eq_canon [of r2 x2] by (simp add: fieldEqual_def)

lemma truthy_fieldEqual: "fieldEqual a b \<Longrightarrow> truthy a = truthy b"
  using truthy_canon [of a] truthy_canon [of b] by (simp add: fieldEqual_def)

lemma fieldEqual_JArr:
  "fieldEqual (JArr xs) b \<Longrightarrow> \<exists>ys. b = JArr ys \<and> list_all2 fieldEqual xs ys"
  by (cases b) (auto simp: fieldEqual_def list_all2_fieldEqual)

lemma fieldEqual_sym: "fieldEqual a b \<Longrightarrow> fieldEqual b a"
  by (simp add: fieldEqual_def)

lemma someAffects_same_ref:
  assumes ref: "rel_sum (=) fieldEqual (componentRef c1) (componentRef c2)"
      and "list_all2 fieldEqual as1 as2"
  shows "someAffects c1 as1 = someAffects c2 as2"
  using assms(2)
proof (induction rule: list_all2_induct)
  case Nil
  then show ?case by simp
next
  case (Cons a1 as1 a2 as2)
  note g = js_get_fieldEqual [OF Cons.hyps(1), of "''ref''"]
  show ?case
  proof (cases "js_get a1 ''ref''")
    case (Inl e)
    from rel_sum_InlD [OF g Inl] Inl show ?thesis by simp
  next
    case (Inr r1)
    obtain r2 where r2: "js_get a2 ''ref'' = Inr r2" "fieldEqual r1 r2"
      using rel_sum_InrD [OF g Inr] by blast
    show ?thesis
    proof (cases "componentRef c1")
      case (Inl e)
      from rel_sum_InlD [OF ref Inl] Inl Inr r2 show ?thesis by simp
    next
      case x: (Inr x1)
      obtain x2 where x2: "componentRef c2 = Inr x2" "fieldEqual x1 x2"
        using rel_sum_InrD [OF ref x] by blast
      from strict_eq_fieldEqual [OF r2(2) x2(2)] Cons.IH Inr r2(1) x x2(1) show ?thesis by simp
    qed
  qed
qed

lemma affectsComponent_same_ref:
  assumes ref: "rel_sum (=) fieldEqual (componentRef c1) (componentRef c2)"
      and v: "fieldEqual v1 v2"
  shows "affectsComponent c1 v1 = affectsComponent c2 v2"
proof -
  note g = js_get_fieldEqual [OF v, of "''affects''"]
  show ?thesis
  proof (cases "js_get v1 ''affects''")
    case (Inl e)
    from rel_sum_InlD [OF g Inl] Inl show ?thesis by (simp add: affectsComponent_def)
  next
    case (Inr a1)
    obtain a2 where a2: "js_get v2 ''affects'' = Inr a2" "fieldEqual a1 a2"
      using rel_sum_InrD [OF g Inr] by blast
    note t = truthy_fieldEqual [OF a2(2)]
    show ?thesis
    proof (cases "\<exists>xs. a1 = JArr xs")
      case True
      then obtain xs where xs: "a1 = JArr xs" by blast
      obtain ys where ys: "a2 = JArr ys" "list_all2 fieldEqual xs ys"
        using fieldEqual_JArr a2(2) xs by blast
      from someAffects_same_ref [OF ref ys(2)] show ?thesis
        by (simp add: affectsComponent_def Inr a2(1) xs ys(1))
    next
      case False
      have "\<not> (\<exists>ys. a2 = JArr ys)"
        using False fieldEqual_JArr fieldEqual_sym [OF a2(2)] by blast
      with False t show ?thesis
        by (cases a1; cases a2) (simp_all add: affectsComponent_def Inr a2(1))
    qed
  qed
qed

lemma filterE_same_ref:
  assumes ref: "rel_sum (=) fieldEqual (componentRef c1) (componentRef c2)"
      and "list_all2 fieldEqual vs1 vs2"
  shows "rel_sum (=) (list_all2 fieldEqual)
           (filterE (affectsComponent c1) vs1) (filterE (affectsComponent c2) vs2)"
  using assms(2)
proof (induction rule: list_all2_induct)
  case Nil
  then show ?case by simp
next
  case (Cons v1 vs1 v2 vs2)
  from affectsComponent_same_ref [OF ref Cons.hyps(1)] Cons.IH Cons.hyps(1) show ?case
    by (cases "affectsComponent c2 v2"; cases "filterE (affectsComponent c1) vs1";
        cases "filterE (affectsComponent c2) vs2") auto
qed

text \<open>Equal relevant fields of the components, the same reference id, and vulnerability
  lists of equal fields: the components have equal relevant fields.\<close>

lemma relevantEqual_same_ref:
  assumes "\<And>k. k \<in> set relevantFields \<Longrightarrow> rel_sum (=) fieldEqual (js_get c1 k) (js_get c2 k)"
      and "rel_sum (=) fieldEqual (componentRef c1) (componentRef c2)"
      and "list_all2 fieldEqual vs1 vs2"
  shows "relevantEqual c1 vs1 c2 vs2"
  using assms(1) filterE_same_ref [OF assms(2,3)] by (simp add: relevantEqual_def)



section \<open>Fingerprints and the fields they leave out\<close>

lemmas checksum_eval =
  componentChecksum_def generateComponentChecksum_def componentData_def component_json_def
  vulnerability_json_def rating_json_def affect_json_def
  jsMember_def externalReference_json_def property_json_def affectsComponent_def componentRef_def
  stringifySortedKeys_def quoteJSONString_def quoteChar_def hashString_def hashStep_def
  toInt32_def toString36.simps digit36_def
  generateFileChecksum_def fileData_def fileComponent_def js_get_opt_def

text \<open>
  C1. The array replacer of \<open>JSON.stringify\<close> filters the members of the nested objects
  too, so no field of an external reference, of a vulnerability, of a component of the
  document or of its metadata reaches the hashed string. Two components that differ in
  their external reference, with affecting vulnerabilities of different ratings, have the
  same component fingerprint; two documents with different components, vulnerabilities
  and metadata timestamp have the same file fingerprint.
\<close>

theorem fingerprint_blind_to_nested_fields:
  "generateComponentChecksum ex_json_a [ex_json_vuln_low] = Inr ''component:3x3t1n''
   \<and> generateComponentChecksum ex_json_b [ex_json_vuln_critical] = Inr ''component:3x3t1n''
   \<and> generateFileChecksum ex_sbom_a = Inr ''file:iv7zfv''
   \<and> generateFileChecksum ex_sbom_b = Inr ''file:iv7zfv''"
  by (simp add: checksum_eval ex_json_a_def ex_json_b_def ex_json_vuln_low_def
      ex_json_vuln_critical_def ex_sbom_a_def ex_sbom_b_def)

section \<open>fetchComponentData: the joint await\<close>

lemma componentRef_typed: "\<not> isl (componentRef (component_json c))"
  by (simp add: componentRef_def component_json_def)

lemma someAffects_typed: "\<not> isl (someAffects (component_json c) (map affect_json as))"
proof (induction as)
  case Nil
  then show ?case by simp
next
  case (Cons a as)
  obtain r where r: "componentRef (component_json c) = Inr r"
    using componentRef_typed [of c] by (cases "componentRef (component_json c)") auto
  show ?case using Cons by (simp add: affect_json_def r)
qed

lemma affectsComponent_typed:
  "\<not> isl (affectsComponent (component_json c) (vulnerability_json v))"
  by (cases "v_affects v")
     (simp_all add: affectsComponent_def vulnerability_json_def jsMember_def someAffects_typed
        split: option.splits)

lemma filterE_typed:
  "\<not> isl (filterE (affectsComponent (component_json c)) (map vulnerability_json vs))"
proof (induction vs)
  case Nil
  then show ?case by simp
next
  case (Cons v vs)
  obtain b where b: "affectsComponent (component_json c) (vulnerability_json v) = Inr b"
    using affectsComponent_typed [of c v]
    by (cases "affectsComponent (component_json c) (vulnerability_json v)") auto
  obtain ys where ys: "filterE (affectsComponent (component_json c)) (map vulnerability_json vs) = Inr ys"
    using Cons by (cases "filterE (affectsComponent (component_json c)) (map vulnerability_json vs)") auto
  show ?case by (simp add: b ys)
qed

text \<open>The fingerprint of a typed component never throws.\<close>

lemma componentChecksum_total: "\<exists>k. componentChecksum c vs = Inr k"
proof -
  obtain ys where ys: "filterE (affectsComponent (component_json c)) (map vulnerability_json vs) = Inr ys"
    using filterE_typed [of c vs]
    by (cases "filterE (affectsComponent (component_json c)) (map vulnerability_json vs)") auto
  obtain ms where ms: "component_json c = JObj ms"
    by (simp add: component_json_def)
  have "\<exists>d. componentData (component_json c) (map vulnerability_json vs) = Inr d"
    unfolding componentData_def using ys by (simp add: ms)
  then show ?thesis
    by (auto simp: componentChecksum_def generateComponentChecksum_def)
qed

lemma setComponentResult_total:
  "\<exists>k. componentChecksum c vs = Inr k
      \<and> setComponentResult now c vs result s = Inr (set_value now k (VProps result) s)"
  using componentChecksum_total [of c vs] by (auto simp: setComponentResult_def)

lemma catchBranch_props:
  "map_sum id fst (catchBranch now c vs s) = Inr (errorProps c)"
  using setComponentResult_total [of c vs now "errorProps c" s]
  by (auto simp: catchBranch_def)

lemma cacheAndReturn_props:
  "map_sum id fst (cacheAndReturn now c vs result s) = Inr result"
  using setComponentResult_total [of c vs now result s]
  by (auto simp: cacheAndReturn_def)

lemma get_set_value: "get (set_value now k v s) k = Some (Plain v)"
  by (simp add: get_def set_value_def saveToStorage_def update_conv')

lemma catchBranch_cached: "resultCached c vs (catchBranch now c vs s)"
  using setComponentResult_total [of c vs now "errorProps c" s]
  by (auto simp: catchBranch_def resultCached_def getComponentResult_def get_set_value)

lemma cacheAndReturn_cached: "resultCached c vs (cacheAndReturn now c vs result s)"
  using setComponentResult_total [of c vs now result s]
  by (auto simp: cacheAndReturn_def resultCached_def getComponentResult_def get_set_value)

lemma awaitAll_Inr:
  "fetchPackageData S pkgInfo = Inr pkgData \<Longrightarrow> fetchVulnerabilityData S pkgInfo = Inr vulnData \<Longrightarrow>
   fetchGitHubData S repoUrl = Inr ghData \<Longrightarrow> fetchEol S c pkgInfo = Inr eolDate \<Longrightarrow>
     awaitAll S c pkgInfo repoUrl = Inr (pkgData, vulnData, ghData, eolDate)"
  by (simp add: awaitAll_def)

lemma awaitAll_Inl:
  "isl (fetchPackageData S pkgInfo) \<or> isl (fetchVulnerabilityData S pkgInfo)
     \<or> isl (fetchGitHubData S repoUrl) \<or> isl (fetchEol S c pkgInfo) \<Longrightarrow>
     isl (awaitAll S c pkgInfo repoUrl)"
  by (auto simp: awaitAll_def isl_def split: sum.splits)

text \<open>
  C2 (as amended). On the full path (no cached result, not all data cached): when the
  four calls are all fulfilled, each with a record or with \<open>null\<close>, the returned property
  set is the one built from the four values, a \<open>null\<close> standing for a source with nothing
  to contribute; when any of the four is rejected, the returned property set is the fixed
  error property set. In both cases the returned set is cached under the fingerprint.
\<close>

theorem full_path_all_or_nothing:
  assumes "hasComponentResult s c vs = Inr False"
      and "\<not> isAllDataCached s c (extractPackageInfo S c) (findRepoUrl c)"
  shows "(fetchPackageData S (extractPackageInfo S c) = Inr pkgData
          \<and> fetchVulnerabilityData S (extractPackageInfo S c) = Inr vulnData
          \<and> fetchGitHubData S (findRepoUrl c) = Inr ghData
          \<and> fetchEol S c (extractPackageInfo S c) = Inr eolDate \<longrightarrow>
            map_sum id fst (fetchComponentData S now c vs s)
              = Inr (buildProperties S c (extractPackageInfo S c) vs pkgData vulnData ghData eolDate))
       \<and> (isl (fetchPackageData S (extractPackageInfo S c))
          \<or> isl (fetchVulnerabilityData S (extractPackageInfo S c))
          \<or> isl (fetchGitHubData S (findRepoUrl c))
          \<or> isl (fetchEol S c (extractPackageInfo S c)) \<longrightarrow>
            map_sum id fst (fetchComponentData S now c vs s) = Inr (errorProps c))
       \<and> resultCached c vs (fetchComponentData S now c vs s)"
proof -
  have full: "fetchComponentData S now c vs s
      = fullFetch S now c vs (extractPackageInfo S c) (findRepoUrl c) s"
    using assms by (simp add: fetchComponentData_def Let_def)
  have ok: "map_sum id fst (fullFetch S now c vs (extractPackageInfo S c) (findRepoUrl c) s)
      = Inr (buildProperties S c (extractPackageInfo S c) vs pkgData vulnData ghData eolDate)"
    if "fetchPackageData S (extractPackageInfo S c) = Inr pkgData"
      "fetchVulnerabilityData S (extractPackageInfo S c) = Inr vulnData"
      "fetchGitHubData S (findRepoUrl c) = Inr ghData"
      "fetchEol S c (extractPackageInfo S c) = Inr eolDate"
    using awaitAll_Inr [OF that] by (simp add: fullFetch_def cacheAndReturn_props)
  have bad: "map_sum id fst (fullFetch S now c vs (extractPackageInfo S c) (findRepoUrl c) s)
      = Inr (errorProps c)"
    if "isl (fetchPackageData S (extractPackageInfo S c))
          \<or> isl (fetchVulnerabilityData S (extractPackageInfo S c))
          \<or> isl (fetchGitHubData S (findRepoUrl c))
          \<or> isl (fetchEol S c (extractPackageInfo S c))"
    using awaitAll_Inl [OF that]
    by (cases "awaitAll S c (extractPackageInfo S c) (findRepoUrl c)")
       (simp_all add: fullFetch_def catchBranch_props)
  have cached: "resultCached c vs (fullFetch S now c vs (extractPackageInfo S c) (findRepoUrl c) s)"
    by (cases "awaitAll S c (extractPackageInfo S c) (findRepoUrl c)")
       (auto simp: fullFetch_def catchBranch_cached cacheAndReturn_cached)
  from ok bad cached show ?thesis unfolding full by blast
qed

lemmas mapper_eval =
  orElse_def truthyStr_def buildProperties_def errorProps_def
  computePatchStatus_def determineCriticalityFromSbom_def determineCriticalityFromOsv_def
  determineUsageRestrictions_def starsOf_def determineOrigin_def determineSupplier_def
  purlIdentifier_def generateUniqueIdentifier_def buildComments_def propValue_def
  toLowerCase_def toLowerChar_def toUpperCase_def toUpperChar_def upperLetters_def
  lowerLetters_def showNat.simps digit10_def criticalityStep_def severityOrder_def Let_def

lemma ex_lodash_checksum: "componentChecksum ex_lodash [] = Inr ''component:jyl4od''"
  by (simp add: checksum_eval ex_lodash_def)

lemma ex_findRepoUrl: "findRepoUrl ex_lodash = Some ''https://github.com/lodash/lodash''"
  by (simp add: findRepoUrl_def ex_lodash_def truthyStr_def)

lemma ex_extract: "extractPackageInfo (ex_services v g) c = Some ex_info"
  by (simp add: ex_services_def)

lemma ex_fetchPackageData: "fetchPackageData (ex_services v g) (Some ex_info) = Inr (Some ex_pkg)"
  by (simp add: fetchPackageData_def ex_services_def ex_info_def)

lemma ex_fetchVulnerabilityData: "fetchVulnerabilityData (ex_services v g) p = v"
  by (simp add: ex_services_def)

lemma ex_fetchGitHubData: "fetchGitHubData (ex_services v g) u = g"
  by (simp add: ex_services_def)

lemma ex_fetchEol: "fetchEol (ex_services v g) c p = Inr None"
  by (simp add: ex_services_def)

lemma ex_pkgKey: "pkgKey (Some ex_info) = Some ''npm:lodash''"
  by (simp add: pkgKey_def generateKey_def ex_info_def)

lemma ex_vulnKey: "vulnKey ex_info = ''vuln:npm:lodash''"
  by (simp add: vulnKey_def generateKey_def ex_info_def)

lemma ex_ghKey: "ghKey (findRepoUrl ex_lodash) = Some ''github:lodash/lodash''"
  by (simp add: ex_findRepoUrl ghKey_def generateKey_def sliceLast2_def)

lemma ex_empty_miss: "hasComponentResult ex_empty ex_lodash [] = Inr False"
  by (simp add: hasComponentResult_def ex_lodash_checksum has_def ex_empty_def)

lemma ex_empty_not_cached:
  "\<not> isAllDataCached ex_empty ex_lodash (Some ex_info) (findRepoUrl ex_lodash)"
  by (simp add: isAllDataCached_def ex_pkgKey keyCached_def has_def ex_empty_def)
     (simp add: ex_info_def)

lemma ex_build_vuln_null:
  "buildProperties ex_services_vuln_down ex_lodash (Some ex_info) [] (Some ex_pkg) None (Some ex_gh) None
     = [(''Patch Status'', Some ''Update available (latest 4.17.21)''),
        (''Release Date'', Some ''2021-02-20''),
        (''End-of-Life Date'', Some ''NA''),
        (''Criticality'', None),
        (''Usage Restrictions'', Some ''Permissive license - Minimal restrictions''),
        (''Comments or Notes'', Some ''Popular project (58000 stars)''),
        (''Executable Property'', Some ''Yes''),
        (''Archive Property'', Some ''No''),
        (''Structured Property'', Some ''Yes''),
        (''Component Supplier'', Some ''Open-source''),
        (''Component Origin'', Some ''Open-source''),
        (''Unique Identifier'', Some ''pkg:supplier/Open-source/npm/lodash@4.17.20'')]"
  by (simp add: mapper_eval ex_services_vuln_down_def ex_services_def ex_info_def ex_pkg_def
      ex_gh_def ex_lodash_def)

lemma ex_errorProps:
  "errorProps ex_lodash
     = [(''Patch Status'', Some ''Error fetching data''),
        (''Release Date'', Some ''NA''),
        (''End-of-Life Date'', Some ''NA''),
        (''Criticality'', Some ''Unknown''),
        (''Usage Restrictions'', Some ''NA''),
        (''Comments or Notes'', Some ''Error occurred while fetching component data''),
        (''Executable Property'', Some ''Unknown''),
        (''Archive Property'', Some ''No''),
        (''Structured Property'', Some ''Yes''),
        (''Unique Identifier'', Some ''lodash''),
        (''Component Supplier'', Some ''Unknown''),
        (''Component Origin'', Some ''Unknown'')]"
  by (simp add: errorProps_def orElse_def truthyStr_def ex_lodash_def)

theorem full_path_all_or_nothing_witness:
  "map_sum id fst (fetchComponentData ex_services_fixed 0 ex_lodash [] ex_empty)
     = Inr (buildProperties ex_services_fixed ex_lodash (Some ex_info) []
              (Some ex_pkg) (Some ex_vuln_fixed) (Some ex_gh) None)
   \<and> map_sum id fst (fetchComponentData ex_services_vuln_down 0 ex_lodash [] ex_empty)
     = Inr (errorProps ex_lodash)
   \<and> resultCached ex_lodash [] (fetchComponentData ex_services_vuln_down 0 ex_lodash [] ex_empty)"
proof -
  have n1: "\<not> isAllDataCached ex_empty ex_lodash (extractPackageInfo ex_services_fixed ex_lodash)
               (findRepoUrl ex_lodash)"
    by (simp add: ex_services_fixed_def ex_extract ex_empty_not_cached)
  have n2: "\<not> isAllDataCached ex_empty ex_lodash (extractPackageInfo ex_services_vuln_down ex_lodash)
               (findRepoUrl ex_lodash)"
    by (simp add: ex_services_vuln_down_def ex_extract ex_empty_not_cached)
  show ?thesis
    using full_path_all_or_nothing [OF ex_empty_miss n1,
        where pkgData = "Some ex_pkg" and vulnData = "Some ex_vuln_fixed"
          and ghData = "Some ex_gh" and eolDate = None and now = 0]
      full_path_all_or_nothing [OF ex_empty_miss n2, where now = 0]
    by (simp add: ex_services_fixed_def ex_services_vuln_down_def ex_extract
        ex_fetchPackageData ex_fetchVulnerabilityData ex_fetchGitHubData ex_fetchEol)
qed

text \<open>
  C2 as stated fails for a rejected promise: the vulnerability call is rejected while the
  package, repository and lifecycle calls are fulfilled, and the returned property set is
  the error property set, not the set built from the three values with \<open>null\<close> for the
  vulnerability aggregate (the release date of the package metadata is lost, for one).
\<close>

theorem rejected_source_counterexample:
  "fetchPackageData ex_services_vuln_down (extractPackageInfo ex_services_vuln_down ex_lodash)
     = Inr (Some ex_pkg)
   \<and> fetchVulnerabilityData ex_services_vuln_down (extractPackageInfo ex_services_vuln_down ex_lodash)
     = Inl (Rejected ''osv.dev unreachable'')
   \<and> fetchGitHubData ex_services_vuln_down (findRepoUrl ex_lodash) = Inr (Some ex_gh)
   \<and> fetchEol ex_services_vuln_down ex_lodash (extractPackageInfo ex_services_vuln_down ex_lodash)
     = Inr None
   \<and> map_sum id fst (fetchComponentData ex_services_vuln_down 0 ex_lodash [] ex_empty)
     = Inr (errorProps ex_lodash)
   \<and> map_sum id fst (fetchComponentData ex_services_vuln_down 0 ex_lodash [] ex_empty)
     \<noteq> Inr (buildProperties ex_services_vuln_down ex_lodash
              (extractPackageInfo ex_services_vuln_down ex_lodash) []
              (Some ex_pkg) None (Some ex_gh) None)
   \<and> propValue (errorProps ex_lodash) ''Release Date'' = Some ''NA''
   \<and> propValue (buildProperties ex_services_vuln_down ex_lodash
                  (extractPackageInfo ex_services_vuln_down ex_lodash) []
                  (Some ex_pkg) None (Some ex_gh) None) ''Release Date'' = Some ''2021-02-20''"
proof -
  have info: "extractPackageInfo ex_services_vuln_down ex_lodash = Some ex_info"
    by (simp add: ex_services_vuln_down_def ex_extract)
  have full: "fetchComponentData ex_services_vuln_down 0 ex_lodash [] ex_empty
      = fullFetch ex_services_vuln_down 0 ex_lodash [] (Some ex_info) (findRepoUrl ex_lodash) ex_empty"
    by (simp add: fetchComponentData_def ex_empty_miss info ex_empty_not_cached)
  have rej: "awaitAll ex_services_vuln_down ex_lodash (Some ex_info) (findRepoUrl ex_lodash)
      = Inl (Rejected ''osv.dev unreachable'')"
    by (simp add: awaitAll_def ex_services_vuln_down_def ex_fetchPackageData ex_fetchVulnerabilityData)
  have err: "map_sum id fst (fetchComponentData ex_services_vuln_down 0 ex_lodash [] ex_empty)
      = Inr (errorProps ex_lodash)"
    by (simp add: full fullFetch_def rej catchBranch_props)
  have src: "fetchPackageData ex_services_vuln_down (Some ex_info) = Inr (Some ex_pkg)"
    "fetchVulnerabilityData ex_services_vuln_down (Some ex_info) = Inl (Rejected ''osv.dev unreachable'')"
    "fetchGitHubData ex_services_vuln_down (findRepoUrl ex_lodash) = Inr (Some ex_gh)"
    "fetchEol ex_services_vuln_down ex_lodash (Some ex_info) = Inr None"
    by (simp_all add: ex_services_vuln_down_def ex_fetchPackageData ex_fetchVulnerabilityData
        ex_fetchGitHubData ex_fetchEol)
  show ?thesis
    unfolding err info
    by (simp add: src ex_build_vuln_null ex_errorProps propValue_def)
qed

section \<open>The recommendation note\<close>

lemma computePatchStatus_not_bare:
  "computePatchStatus vulnData pkgInfo pkgData \<noteq> ''Update available''"
  by (auto simp: computePatchStatus_def split: option.splits list.splits)

text \<open>With no fixed version known, the comments are those of buildComments.\<close>

lemma no_fixed_version_no_note:
  assumes "\<And>v vs. Option.bind vulnData vd_fixedVersions \<noteq> Some (v # vs)"
  shows "propValue (buildProperties S c pkgInfo vs pkgData vulnData ghData eolDate) ''Comments or Notes''
           = Some (buildComments pkgData vulnData ghData)"
proof -
  have "(case Option.bind vulnData vd_fixedVersions of None \<Rightarrow> x | Some [] \<Rightarrow> x | Some (v # vs) \<Rightarrow> f v) = x"
    for x :: "string option" and f
    using assms by (cases "Option.bind vulnData vd_fixedVersions") (auto split: list.splits)
  then show ?thesis
    by (simp add: buildProperties_def propValue_def computePatchStatus_not_bare)
qed

text \<open>
  C5. The note \<open>Recommended version: NA\<close> is appended when the patch status is exactly
  \<open>Update available\<close>, a text \<open>computePatchStatus\<close> never returns. With two known
  vulnerabilities and an empty list of fixed versions, the patch status is
  \<open>Update available (>= NA)\<close> and the comments carry no recommendation, on the full path
  and on the path from cached data alike.
\<close>

theorem recommendation_NA_not_appended:
  "map_sum id (\<lambda>r. (propValue (fst r) ''Patch Status'', propValue (fst r) ''Comments or Notes''))
     (fetchComponentData ex_services_nofix 0 ex_lodash [] ex_empty)
     = Inr (Some ''Update available (>= NA)'', Some ''2 known vulnerabilities'')
   \<and> map_sum id (\<lambda>r. (propValue r ''Patch Status'', propValue r ''Comments or Notes''))
       (buildPropertiesFromCachedData ex_services_nofix
          (set_value 0 ''vuln:npm:lodash'' (VVuln ex_vuln_nofix) ex_empty)
          ex_lodash (Some ex_info) None [])
     = Inr (Some ''Update available (>= NA)'', Some ''2 known vulnerabilities'')"
proof -
  have info: "extractPackageInfo ex_services_nofix ex_lodash = Some ex_info"
    by (simp add: ex_services_nofix_def ex_extract)
  have full: "fetchComponentData ex_services_nofix 0 ex_lodash [] ex_empty
      = fullFetch ex_services_nofix 0 ex_lodash [] (Some ex_info) (findRepoUrl ex_lodash) ex_empty"
    by (simp add: fetchComponentData_def ex_empty_miss info ex_empty_not_cached)
  have all: "awaitAll ex_services_nofix ex_lodash (Some ex_info) (findRepoUrl ex_lodash)
      = Inr (Some ex_pkg, Some ex_vuln_nofix, None, None)"
    by (simp add: awaitAll_def ex_services_nofix_def ex_fetchPackageData ex_fetchVulnerabilityData
        ex_fetchGitHubData ex_fetchEol)
  have build: "buildProperties ex_services_nofix ex_lodash (Some ex_info) []
                 (Some ex_pkg) (Some ex_vuln_nofix) None None
      = [(''Patch Status'', Some ''Update available (>= NA)''),
         (''Release Date'', Some ''2021-02-20''),
         (''End-of-Life Date'', Some ''NA''),
         (''Criticality'', None),
         (''Usage Restrictions'', Some ''Permissive license - Minimal restrictions''),
         (''Comments or Notes'', Some ''2 known vulnerabilities''),
         (''Executable Property'', Some ''Yes''),
         (''Archive Property'', Some ''No''),
         (''Structured Property'', Some ''Yes''),
         (''Component Supplier'', Some ''Third-party''),
         (''Component Origin'', Some ''Open-source''),
         (''Unique Identifier'', Some ''pkg:supplier/Third-party/npm/lodash@4.17.20'')]"
    by (simp add: mapper_eval ex_services_nofix_def ex_services_def ex_info_def ex_pkg_def
        ex_vuln_nofix_def ex_lodash_def)
  have first: "map_sum id fst (fetchComponentData ex_services_nofix 0 ex_lodash [] ex_empty)
      = Inr (buildProperties ex_services_nofix ex_lodash (Some ex_info) []
               (Some ex_pkg) (Some ex_vuln_nofix) None None)"
    by (simp add: full fullFetch_def all cacheAndReturn_props)
  have fst_comp: "map_sum id (\<lambda>r. (propValue (fst r) ''Patch Status'', propValue (fst r) ''Comments or Notes'')) x
      = map_sum id (\<lambda>p. (propValue p ''Patch Status'', propValue p ''Comments or Notes'')) (map_sum id fst x)"
    for x :: "js_error + propertySet \<times> cval cacheService"
    by (cases x) auto
  have cached: "buildPropertiesFromCachedData ex_services_nofix
          (set_value 0 ''vuln:npm:lodash'' (VVuln ex_vuln_nofix) ex_empty)
          ex_lodash (Some ex_info) None []
      = Inr [(''Patch Status'', Some ''Update available (>= NA)''),
         (''Release Date'', Some ''NA''),
         (''End-of-Life Date'', Some ''NA''),
         (''Criticality'', None),
         (''Usage Restrictions'', Some ''NA''),
         (''Comments or Notes'', Some ''2 known vulnerabilities''),
         (''Executable Property'', Some ''Yes''),
         (''Archive Property'', Some ''No''),
         (''Structured Property'', Some ''Yes''),
         (''Component Supplier'', Some ''Third-party''),
         (''Component Origin'', Some ''Open-source''),
         (''Unique Identifier'', Some ''pkg:supplier/Third-party/npm/lodash@4.17.20'')]"
    apply (simp add: buildPropertiesFromCachedData_def ex_pkgKey ex_vulnKey ghKey_def get_def
        set_value_def saveToStorage_def ex_empty_def ex_services_nofix_def ex_fetchEol)
    apply (simp add: mapper_eval ex_info_def ex_vuln_nofix_def ex_lodash_def ex_services_def)
    done
  show ?thesis
    unfolding fst_comp first build cached by (simp add: propValue_def)
qed

section \<open>The fast path\<close>

text \<open>
  Take a component with package info, whose package key (for npm, PyPI and Maven),
  vulnerability key and repository key (when it has a repository URL) are in the cache,
  and let the data sources return what the cache holds under these keys. Then
  \<open>isAllDataCached\<close> holds, \<open>fetchComponentData\<close> takes the fast path on a fingerprint
  miss, and the fast path gives what the full path would give: the same property set,
  cached in the same way.
\<close>

theorem fast_path_equals_full_path:
  assumes info: "extractPackageInfo S c = Some info"
      and pkg: "fetchPackageData S (Some info)
                  = Inr (case pkgKey (Some info) of None \<Rightarrow> None | Some k \<Rightarrow> as_pkg (get s k))"
      and vuln: "fetchVulnerabilityData S (Some info) = Inr (as_vuln (get s (vulnKey info)))"
      and gh: "fetchGitHubData S (findRepoUrl c)
                  = Inr (case ghKey (findRepoUrl c) of None \<Rightarrow> None | Some k \<Rightarrow> as_gh (get s k))"
      and resident: "keyCached s (pkgKey (Some info))" "has s (vulnKey info)"
                    "keyCached s (ghKey (findRepoUrl c))"
      and miss: "hasComponentResult s c vs = Inr False"
  shows "isAllDataCached s c (Some info) (findRepoUrl c)
       \<and> fetchComponentData S now c vs s = fastPath S now c vs (Some info) (findRepoUrl c) s
       \<and> fastPath S now c vs (Some info) (findRepoUrl c) s
           = fullFetch S now c vs (Some info) (findRepoUrl c) s"
proof -
  have all: "isAllDataCached s c (Some info) (findRepoUrl c)"
    using resident by (simp add: isAllDataCached_def keyCached_def)
  have fast: "fetchComponentData S now c vs s = fastPath S now c vs (Some info) (findRepoUrl c) s"
    using miss all by (simp add: fetchComponentData_def info)
  have eq: "fastPath S now c vs (Some info) (findRepoUrl c) s
      = fullFetch S now c vs (Some info) (findRepoUrl c) s"
  proof (cases "fetchEol S c (Some info)")
    case (Inl e)
    then show ?thesis
      by (simp add: fastPath_def fullFetch_def buildPropertiesFromCachedData_def awaitAll_def
          pkg vuln gh Let_def)
  next
    case (Inr eolDate)
    then show ?thesis
      by (simp add: fastPath_def fullFetch_def buildPropertiesFromCachedData_def awaitAll_def
          buildProperties_def pkg vuln gh Let_def)
  qed
  from all fast eq show ?thesis by simp
qed

lemma ex_warm_miss: "hasComponentResult ex_warm ex_lodash [] = Inr False"
  by (simp add: hasComponentResult_def ex_lodash_checksum has_def ex_warm_def)

theorem fast_path_equals_full_path_witness:
  "isAllDataCached ex_warm ex_lodash (Some ex_info) (findRepoUrl ex_lodash)
   \<and> fetchComponentData ex_services_fixed 0 ex_lodash [] ex_warm
       = fastPath ex_services_fixed 0 ex_lodash [] (Some ex_info) (findRepoUrl ex_lodash) ex_warm
   \<and> fastPath ex_services_fixed 0 ex_lodash [] (Some ex_info) (findRepoUrl ex_lodash) ex_warm
       = fullFetch ex_services_fixed 0 ex_lodash [] (Some ex_info) (findRepoUrl ex_lodash) ex_warm"
proof -
  have info: "extractPackageInfo ex_services_fixed ex_lodash = Some ex_info"
    by (simp add: ex_services_fixed_def ex_extract)
  have pkg: "fetchPackageData ex_services_fixed (Some ex_info)
      = Inr (case pkgKey (Some ex_info) of None \<Rightarrow> None | Some k \<Rightarrow> as_pkg (get ex_warm k))"
    by (simp add: ex_services_fixed_def ex_fetchPackageData ex_pkgKey get_def ex_warm_def)
  have vuln: "fetchVulnerabilityData ex_services_fixed (Some ex_info)
      = Inr (as_vuln (get ex_warm (vulnKey ex_info)))"
    by (simp add: ex_services_fixed_def ex_fetchVulnerabilityData ex_vulnKey get_def ex_warm_def)
  have gh: "fetchGitHubData ex_services_fixed (findRepoUrl ex_lodash)
      = Inr (case ghKey (findRepoUrl ex_lodash) of None \<Rightarrow> None | Some k \<Rightarrow> as_gh (get ex_warm k))"
    by (simp add: ex_services_fixed_def ex_fetchGitHubData ex_ghKey get_def ex_warm_def)
  have r1: "keyCached ex_warm (pkgKey (Some ex_info))"
    by (simp add: ex_pkgKey keyCached_def has_def ex_warm_def)
  have r2: "has ex_warm (vulnKey ex_info)"
    by (simp add: ex_vulnKey has_def ex_warm_def)
  have r3: "keyCached ex_warm (ghKey (findRepoUrl ex_lodash))"
    by (simp add: ex_ghKey keyCached_def has_def ex_warm_def)
  show ?thesis
    by (rule fast_path_equals_full_path [OF info pkg vuln gh r1 r2 r3 ex_warm_miss])
qed

text \<open>With no package info the fast path is taken and throws: the error property set.\<close>

lemma fast_path_without_pkgInfo:
  assumes "extractPackageInfo S c = None" and "hasComponentResult s c vs = Inr False"
  shows "map_sum id fst (fetchComponentData S now c vs s) = Inr (errorProps c)"
  using assms
  by (simp add: fetchComponentData_def isAllDataCached_def fastPath_def
      buildPropertiesFromCachedData_def catchBranch_props Let_def)

lemma ex_repo_cached_miss: "hasComponentResult ex_repo_cached ex_lodash [] = Inr False"
  by (simp add: hasComponentResult_def ex_lodash_checksum has_def ex_repo_cached_def)

lemma ex_build_noinfo:
  "buildProperties ex_services_noinfo ex_lodash None [] None None (Some ex_gh) None
     = [(''Patch Status'', Some ''Up to date''),
        (''Release Date'', Some ''NA''),
        (''End-of-Life Date'', Some ''NA''),
        (''Criticality'', None),
        (''Usage Restrictions'', Some ''Permissive license - Minimal restrictions''),
        (''Comments or Notes'', Some ''Popular project (58000 stars)''),
        (''Executable Property'', Some ''No''),
        (''Archive Property'', Some ''No''),
        (''Structured Property'', Some ''Yes''),
        (''Component Supplier'', Some ''Open-source''),
        (''Component Origin'', Some ''Open-source''),
        (''Unique Identifier'', Some ''lodash'')]"
  by (simp add: mapper_eval ex_services_noinfo_def ex_gh_def ex_lodash_def)

text \<open>
  C3. For a component with no package info, \<open>isAllDataCached\<close> answers true (no package
  key and no vulnerability key apply; the repository key is in the cache, with the value
  the repository source returns), the fast path is taken, the read of
  \<open>pkgInfo.ecosystem\<close> for the vulnerability key throws, and \<open>fetchComponentData\<close> returns
  the error property set. The full path, which reads \<open>pkgInfo?.ecosystem\<close>, returns the
  property set built from the source values: patch status \<open>Up to date\<close>, not
  \<open>Error fetching data\<close>.
\<close>

theorem fast_path_throws_without_package_info:
  "extractPackageInfo ex_services_noinfo ex_lodash = None
   \<and> ghKey (findRepoUrl ex_lodash) = Some ''github:lodash/lodash''
   \<and> has ex_repo_cached ''github:lodash/lodash''
   \<and> fetchGitHubData ex_services_noinfo (findRepoUrl ex_lodash)
       = Inr (as_gh (get ex_repo_cached ''github:lodash/lodash''))
   \<and> isAllDataCached ex_repo_cached ex_lodash None (findRepoUrl ex_lodash)
   \<and> map_sum id fst (fetchComponentData ex_services_noinfo 0 ex_lodash [] ex_repo_cached)
       = Inr (errorProps ex_lodash)
   \<and> map_sum id fst (fullFetch ex_services_noinfo 0 ex_lodash [] None (findRepoUrl ex_lodash)
                       ex_repo_cached)
       = Inr (buildProperties ex_services_noinfo ex_lodash None [] None None (Some ex_gh) None)
   \<and> propValue (errorProps ex_lodash) ''Patch Status'' = Some ''Error fetching data''
   \<and> propValue (buildProperties ex_services_noinfo ex_lodash None [] None None (Some ex_gh) None)
         ''Patch Status'' = Some ''Up to date''"
proof -
  have info: "extractPackageInfo ex_services_noinfo ex_lodash = None"
    by (simp add: ex_services_noinfo_def)
  have resident: "has ex_repo_cached ''github:lodash/lodash''"
    by (simp add: has_def ex_repo_cached_def)
  have same: "fetchGitHubData ex_services_noinfo (findRepoUrl ex_lodash)
      = Inr (as_gh (get ex_repo_cached ''github:lodash/lodash''))"
    by (simp add: ex_services_noinfo_def get_def ex_repo_cached_def)
  have all: "isAllDataCached ex_repo_cached ex_lodash None (findRepoUrl ex_lodash)"
    by (simp add: isAllDataCached_def)
  have fast: "map_sum id fst (fetchComponentData ex_services_noinfo 0 ex_lodash [] ex_repo_cached)
      = Inr (errorProps ex_lodash)"
    by (rule fast_path_without_pkgInfo [OF info ex_repo_cached_miss])
  have await: "awaitAll ex_services_noinfo ex_lodash None (findRepoUrl ex_lodash)
      = Inr (None, None, Some ex_gh, None)"
    by (simp add: awaitAll_def fetchPackageData_def ex_services_noinfo_def)
  have full: "map_sum id fst (fullFetch ex_services_noinfo 0 ex_lodash [] None (findRepoUrl ex_lodash)
                       ex_repo_cached)
      = Inr (buildProperties ex_services_noinfo ex_lodash None [] None None (Some ex_gh) None)"
    by (simp add: fullFetch_def await cacheAndReturn_props)
  show ?thesis
    unfolding fast full
    by (simp add: info resident same all ex_ghKey ex_build_noinfo ex_errorProps propValue_def)
qed

end
